theory Spec2Isabelle
  imports Complex_Main
begin

section \<open>JavaScript strings and numbers\<close>

text \<open>
  A JavaScript string is a sequence of code units. It is modelled as a \<open>string\<close>
  (a list of \<open>char\<close>), so the model covers the strings whose code units are below 256;
  \<open>length\<close> is the \<open>.length\<close> of the source. The characters that the source names by an
  escape sequence are given by their codes.
\<close>

definition backslash :: char where "backslash = CHR 0x5C"
definition dquote :: char where "dquote = CHR 0x22"
definition squote :: char where "squote = CHR 0x27"
definition newline :: char where "newline = CHR 0x0A"
definition creturn :: char where "creturn = CHR 0x0D"
definition tab :: char where "tab = CHR 0x09"

text \<open>
  \<open>s.replace(/c/g, r)\<close> for a pattern that is one literal character \<open>c\<close> and a replacement
  text \<open>r\<close> without \<open>$\<close>: every occurrence of \<open>c\<close> becomes \<open>r\<close>, the rest is kept.
\<close>

definition replace_all_char :: "char \<Rightarrow> string \<Rightarrow> string \<Rightarrow> string" where
  "replace_all_char c r s = concat (map (\<lambda>x. if x = c then r else [x]) s)"

text \<open>
  A JavaScript number: the two infinities, NaN, or a finite value. Every finite double is a
  rational, and \<open>Math.floor\<close>, \<open>Math.min\<close> and \<open><\<close> are exact on doubles, so a finite value
  is modelled as a \<open>rat\<close>. (The sign of zero is not modelled; nothing below observes it.)
\<close>

datatype number = NaN | PosInfinity | NegInfinity | Finite rat

fun Math_floor :: "number \<Rightarrow> number" where
  "Math_floor (Finite q) = Finite (of_int \<lfloor>q\<rfloor>)"
| "Math_floor n = n"

definition isNaN :: "number \<Rightarrow> bool" where
  "isNaN n = (n = NaN)"

text \<open>\<open>a < b\<close> on numbers: false as soon as one side is NaN.\<close>

fun number_less :: "number \<Rightarrow> number \<Rightarrow> bool" where
  "number_less NaN _ = False"
| "number_less _ NaN = False"
| "number_less (Finite a) (Finite b) = (a < b)"
| "number_less NegInfinity NegInfinity = False"
| "number_less NegInfinity _ = True"
| "number_less _ NegInfinity = False"
| "number_less PosInfinity _ = False"
| "number_less _ PosInfinity = True"

text \<open>\<open>Math.min(a, b)\<close>: NaN as soon as one argument is NaN, else the smaller one.\<close>

definition Math_min :: "number \<Rightarrow> number \<Rightarrow> number" where
  "Math_min a b = (if a = NaN \<or> b = NaN then NaN else if number_less b a then b else a)"

section \<open>utils/security.ts\<close>

subsection \<open>AppleScript and SQL escaping\<close>

text \<open>
  \<open>escapeAppleScriptString\<close> is five global replacements, one after the other, the backslash
  first.
\<close>

definition escapeAppleScriptString :: "string \<Rightarrow> string" where
  "escapeAppleScriptString str =
     replace_all_char tab [backslash, CHR ''t'']
       (replace_all_char creturn [backslash, CHR ''r'']
         (replace_all_char newline [backslash, CHR ''n'']
           (replace_all_char dquote [backslash, dquote]
             (replace_all_char backslash [backslash, backslash] str))))"

definition escapeSqlString :: "string \<Rightarrow> string" where
  "escapeSqlString str = replace_all_char squote [squote, squote] str"

text \<open>
  The inverse that the specification speaks of. The source has no such function; this one
  follows the specification's words: one pass from the left that maps each of the
  two-character sequences backslash-backslash, backslash-quote, backslash-n, backslash-r and
  backslash-t back to the character it stands for, and keeps every other character.
\<close>

fun unescape :: "string \<Rightarrow> string" where
  "unescape (a # b # rest) =
     (if a = backslash \<and> b = backslash then backslash # unescape rest
      else if a = backslash \<and> b = dquote then dquote # unescape rest
      else if a = backslash \<and> b = CHR ''n'' then newline # unescape rest
      else if a = backslash \<and> b = CHR ''r'' then creturn # unescape rest
      else if a = backslash \<and> b = CHR ''t'' then tab # unescape rest
      else a # unescape (b # rest))"
| "unescape s = s"

subsection \<open>Rate limiting\<close>

record RateLimitEntry =
  count :: int
  resetAt :: int

record RateLimiter =
  limits :: "string \<rightharpoonup> RateLimitEntry"
  maxRequests :: int
  windowMs :: int

definition new_RateLimiter :: "int \<Rightarrow> int \<Rightarrow> RateLimiter" where
  "new_RateLimiter maxReq window = \<lparr>limits = Map.empty, maxRequests = maxReq, windowMs = window\<rparr>"

text \<open>
  \<open>RateLimiter.check\<close>. The value of \<open>Date.now()\<close> is the argument \<open>now\<close>; the updated limiter
  is returned with the answer.
\<close>

definition check :: "int \<Rightarrow> string \<Rightarrow> RateLimiter \<Rightarrow> bool \<times> RateLimiter" where
  "check now key rl =
     (case limits rl key of
        None \<Rightarrow>
          (True, rl\<lparr>limits := (limits rl)(key \<mapsto> \<lparr>count = 1, resetAt = now + windowMs rl\<rparr>)\<rparr>)
      | Some entry \<Rightarrow>
          if resetAt entry \<le> now then
            (True, rl\<lparr>limits := (limits rl)(key \<mapsto> \<lparr>count = 1, resetAt = now + windowMs rl\<rparr>)\<rparr>)
          else if count entry \<ge> maxRequests rl then (False, rl)
          else (True, rl\<lparr>limits := (limits rl)(key \<mapsto> entry\<lparr>count := count entry + 1\<rparr>)\<rparr>))"

definition reset :: "string \<Rightarrow> RateLimiter \<Rightarrow> RateLimiter" where
  "reset key rl = rl\<lparr>limits := (limits rl)(key := None)\<rparr>"

text \<open>The limiters that the module creates.\<close>

record rateLimiters =
  messages :: RateLimiter
  emails :: RateLimiter
  search :: RateLimiter
  "write" :: RateLimiter
  global :: RateLimiter

definition initial_rateLimiters :: rateLimiters where
  "initial_rateLimiters =
     \<lparr>messages = new_RateLimiter 10 60000,
      emails = new_RateLimiter 20 60000,
      search = new_RateLimiter 30 60000,
      write = new_RateLimiter 5 60000,
      global = new_RateLimiter 100 60000\<rparr>"

text \<open>Successive calls of \<open>check\<close> on one key, at the given times; the answers in order.\<close>

fun check_calls :: "RateLimiter \<Rightarrow> string \<Rightarrow> int list \<Rightarrow> bool list \<times> RateLimiter" where
  "check_calls rl key [] = ([], rl)"
| "check_calls rl key (t # ts) =
     (let (ok, rl') = check t key rl;
          (oks, rl'') = check_calls rl' key ts
      in (ok # oks, rl''))"

subsection \<open>The limit helper\<close>

text \<open>
  \<open>sanitizeLimit(limit, max = 100)\<close>; an omitted \<open>max\<close> is \<open>None\<close>. The copy in
  utils/database.ts has the same body.
\<close>

definition sanitizeLimit :: "number \<Rightarrow> number option \<Rightarrow> number" where
  "sanitizeLimit limit max_arg =
     (let mx = (case max_arg of None \<Rightarrow> Finite 100 | Some m \<Rightarrow> m);
          parsed = Math_floor limit
      in if isNaN parsed \<or> number_less parsed (Finite 1) then Finite 10
         else Math_min parsed mx)"

definition database_sanitizeLimit :: "number \<Rightarrow> number option \<Rightarrow> number" where
  "database_sanitizeLimit limit max_arg =
     (let mx = (case max_arg of None \<Rightarrow> Finite 100 | Some m \<Rightarrow> m);
          parsed = Math_floor limit
      in if isNaN parsed \<or> number_less parsed (Finite 1) then Finite 10
         else Math_min parsed mx)"

subsection \<open>Configuration and authentication\<close>

text \<open>
  White space as \<open>trim\<close>, \<open>\s\<close> and \<open>parseInt\<close> see it, among the code units below 256:
  tab, line feed, vertical tab, form feed, carriage return, space, no-break space.
\<close>

definition is_space :: "char \<Rightarrow> bool" where
  "is_space c = (c \<in> set [CHR 0x09, CHR 0x0A, CHR 0x0B, CHR 0x0C, CHR 0x0D, CHR 0x20, CHR 0xA0])"

definition is_digit :: "char \<Rightarrow> bool" where
  "is_digit c = (c \<in> set ''0123456789'')"

definition digit_value :: "char \<Rightarrow> nat" where
  "digit_value c = of_char c - 48"

text \<open>
  \<open>parseInt(s, 10)\<close>: leading white space is skipped, a sign is read, then the longest run of
  digits; no digit gives NaN. The value is the exact integer (JavaScript rounds a value of more
  than 15 digits to the nearest double).
\<close>

definition digits_value :: "string \<Rightarrow> nat" where
  "digits_value ds = foldl (\<lambda>acc d. 10 * acc + digit_value d) 0 ds"

definition parseInt10 :: "string \<Rightarrow> number" where
  "parseInt10 s =
     (let t = dropWhile is_space s;
          (neg, u) = (case t of
                        c # r \<Rightarrow> if c = CHR ''-'' then (True, r)
                                 else if c = CHR ''+'' then (False, r) else (False, t)
                      | [] \<Rightarrow> (False, t));
          ds = takeWhile is_digit u
      in if ds = [] then NaN
         else if neg then Finite (- of_nat (digits_value ds))
         else Finite (of_nat (digits_value ds)))"

text \<open>\<open>!v\<close> and \<open>v || d\<close> for a value that is a string or undefined.\<close>

definition falsy :: "string option \<Rightarrow> bool" where
  "falsy v = (v = None \<or> v = Some [])"

definition or_default :: "string option \<Rightarrow> string \<Rightarrow> string" where
  "or_default v d = (if falsy v then d else the v)"

record securityConfig =
  enableRateLimiting :: bool
  enableAuditLogging :: bool
  authToken :: "string option"
  maxMessageLength :: number
  maxSearchResults :: number

text \<open>The configuration object, read from \<open>process.env\<close> (a map from names to strings).\<close>

definition securityConfig_of_env :: "(string \<rightharpoonup> string) \<Rightarrow> securityConfig" where
  "securityConfig_of_env env =
     \<lparr>enableRateLimiting = (env ''ENABLE_RATE_LIMITING'' \<noteq> Some ''false''),
      enableAuditLogging = (env ''ENABLE_AUDIT_LOGGING'' \<noteq> Some ''false''),
      authToken = env ''MCP_AUTH_TOKEN'',
      maxMessageLength = parseInt10 (or_default (env ''MAX_MESSAGE_LENGTH'') ''10000''),
      maxSearchResults = parseInt10 (or_default (env ''MAX_SEARCH_RESULTS'') ''100'')\<rparr>"

text \<open>\<open>checkAuthentication(token?)\<close>; an omitted or undefined token is \<open>None\<close>.\<close>

definition checkAuthentication :: "securityConfig \<Rightarrow> string option \<Rightarrow> bool" where
  "checkAuthentication cfg token =
     (if falsy (authToken cfg) then True else token = authToken cfg)"

subsection \<open>Errors\<close>

text \<open>
  The values that the code throws: a plain \<open>Error\<close> with its message, the module's
  \<open>ValidationError\<close> with message and field, the \<open>ZodError\<close> of a schema with the messages
  of the failed checks, and the runtime's \<open>TypeError\<close> and \<open>SyntaxError\<close>. All of them are
  instances of \<open>Error\<close> and carry a message.
\<close>

datatype js_error =
    Error string
  | ValidationError string "string option"
  | ZodError "string list"
  | TypeError string
  | SyntaxError string

fun is_ValidationError :: "js_error \<Rightarrow> bool" where
  "is_ValidationError (ValidationError _ _) = True"
| "is_ValidationError _ = False"

text \<open>
  \<open>error.message\<close>. The message of a ZodError is a rendering of its issues by the library;
  the model keeps the issues' messages joined by a semicolon.
\<close>

fun error_message :: "js_error \<Rightarrow> string" where
  "error_message (Error m) = m"
| "error_message (ValidationError m _) = m"
| "error_message (ZodError ms) = concat (map (\<lambda>m. m @ '';'') ms)"
| "error_message (TypeError m) = m"
| "error_message (SyntaxError m) = m"

subsection \<open>Dangerous patterns\<close>

definition trim :: "string \<Rightarrow> string" where
  "trim s = rev (dropWhile is_space (rev (dropWhile is_space s)))"

text \<open>
  The regular expressions of \<open>DANGEROUS_PATTERNS\<close> are sequences of literal characters and
  \<open>\s+\<close>, all with the flag \<open>i\<close>. A character of the text matches a literal when the two are
  equal up to the case of the letters A to Z.
\<close>

datatype pat_item = Lit char | Spaces

definition ascii_upper :: "char \<Rightarrow> char" where
  "ascii_upper c =
     (let n = (of_char c :: nat) in if 97 \<le> n \<and> n \<le> 122 then char_of (n - 32) else c)"

text \<open>The expression matches a prefix of the text.\<close>

fun match_here :: "pat_item list \<Rightarrow> string \<Rightarrow> bool" where
  "match_here [] s = True"
| "match_here (p # ps) [] = False"
| "match_here (Lit c # ps) (x # xs) = (ascii_upper x = ascii_upper c \<and> match_here ps xs)"
| "match_here (Spaces # ps) (x # xs) =
     (is_space x \<and> (match_here (Spaces # ps) xs \<or> match_here ps xs))"

text \<open>\<open>pattern.test(input)\<close>: the expression matches somewhere in the text.\<close>

fun regex_test :: "pat_item list \<Rightarrow> string \<Rightarrow> bool" where
  "regex_test p [] = match_here p []"
| "regex_test p (x # xs) = (match_here p (x # xs) \<or> regex_test p xs)"

definition DANGEROUS_PATTERNS :: "pat_item list list" where
  "DANGEROUS_PATTERNS =
     [map Lit ''tell'' @ [Spaces] @ map Lit ''application'' @ [Spaces] @ [Lit dquote]
        @ map Lit ''System'' @ [Spaces] @ map Lit ''Events'' @ [Lit dquote],
      map Lit ''do'' @ [Spaces] @ map Lit ''shell'' @ [Spaces] @ map Lit ''script'',
      map Lit ''osascript'',
      map Lit ''eval'',
      map Lit ''exec'',
      map Lit ''system('',
      map Lit ''DELETE'' @ [Spaces] @ map Lit ''FROM'',
      map Lit ''DROP'' @ [Spaces] @ map Lit ''TABLE'',
      map Lit ''UPDATE'' @ [Spaces] @ map Lit ''SET'',
      map Lit ''INSERT'' @ [Spaces] @ map Lit ''INTO'']"

definition containsDangerousPattern :: "string \<Rightarrow> bool" where
  "containsDangerousPattern input = list_ex (\<lambda>pattern. regex_test pattern input) DANGEROUS_PATTERNS"

subsection \<open>Schemas and validators\<close>

text \<open>
  \<open>schema.parse(v)\<close> returns the parsed value or throws a ZodError. The checks \<open>min\<close> and
  \<open>max\<close> of a string schema stand before \<open>transform\<close>: they see the value as given, and the
  transformation runs when all of them pass.
\<close>

definition zod_issues :: "(bool \<times> string) list \<Rightarrow> string list" where
  "zod_issues checks = map snd (filter (\<lambda>(failed, msg). failed) checks)"

definition searchQuerySchema_parse :: "string \<Rightarrow> js_error + string" where
  "searchQuerySchema_parse val =
     (let issues = zod_issues [(length val < 1, ''Search query cannot be empty''),
                               (length val > 500, ''Search query too long'')]
      in if issues \<noteq> [] then Inl (ZodError issues) else Inr (trim val))"

definition messageContentSchema_parse :: "string \<Rightarrow> js_error + string" where
  "messageContentSchema_parse val =
     (let issues = zod_issues [(length val < 1, ''Message cannot be empty''),
                               (length val > 10000, ''Message too long'')]
      in if issues \<noteq> [] then Inl (ZodError issues) else Inr val)"

text \<open>
  The check \<open>email()\<close> is the library's; \<open>isEmail\<close> stands for it.
\<close>

definition emailSchema_parse :: "(string \<Rightarrow> bool) \<Rightarrow> string \<Rightarrow> js_error + string" where
  "emailSchema_parse isEmail val =
     (let issues = zod_issues [(\<not> isEmail val, ''Invalid email address''),
                               (length val > 254, ''Email address too long'')]
      in if issues \<noteq> [] then Inl (ZodError issues) else Inr val)"

definition validateEmail :: "(string \<Rightarrow> bool) \<Rightarrow> string \<Rightarrow> js_error + string" where
  "validateEmail isEmail email =
     (case emailSchema_parse isEmail email of
        Inr v \<Rightarrow> Inr v
      | Inl error \<Rightarrow> Inl (ValidationError ''Invalid email address'' (Some ''email'')))"

text \<open>
  In the next two functions the \<open>try\<close> block is the inner \<open>case\<close>, the \<open>catch\<close> clause the
  outer one.
\<close>

definition validateSearchQuery :: "string \<Rightarrow> js_error + string" where
  "validateSearchQuery query =
     (case (case searchQuerySchema_parse query of
              Inl error \<Rightarrow> Inl error
            | Inr validated \<Rightarrow>
                if containsDangerousPattern validated
                then Inl (ValidationError ''Search query contains forbidden patterns''
                            (Some ''searchQuery''))
                else Inr validated) of
        Inr v \<Rightarrow> Inr v
      | Inl error \<Rightarrow>
          if is_ValidationError error then Inl error
          else Inl (ValidationError ''Invalid search query'' (Some ''searchQuery'')))"

definition validateMessageContent :: "string \<Rightarrow> js_error + string" where
  "validateMessageContent content_arg =
     (case (case messageContentSchema_parse content_arg of
              Inl error \<Rightarrow> Inl error
            | Inr validated \<Rightarrow>
                if containsDangerousPattern validated
                then Inl (ValidationError ''Message contains forbidden patterns'' (Some ''message''))
                else Inr validated) of
        Inr v \<Rightarrow> Inr v
      | Inl error \<Rightarrow>
          if is_ValidationError error then Inl error
          else Inl (ValidationError ''Invalid message content'' (Some ''message'')))"

subsection \<open>The builder and the audit log\<close>

definition is_identifier_char :: "char \<Rightarrow> bool" where
  "is_identifier_char c =
     (let n = (of_char c :: nat)
      in (97 \<le> n \<and> n \<le> 122) \<or> (65 \<le> n \<and> n \<le> 90) \<or> (48 \<le> n \<and> n \<le> 57) \<or> n = 95)"

definition escapeAppleScriptIdentifier :: "string \<Rightarrow> string" where
  "escapeAppleScriptIdentifier str = filter is_identifier_char str"

text \<open>\<open>parts.join(sep)\<close>.\<close>

fun join :: "string \<Rightarrow> string list \<Rightarrow> string" where
  "join sep [] = []"
| "join sep [x] = x"
| "join sep (x # y # ys) = x @ sep @ join sep (y # ys)"

text \<open>The builder is its list of lines; each method returns the builder with one more line.\<close>

type_synonym AppleScriptBuilder = "string list"

definition tell :: "string \<Rightarrow> AppleScriptBuilder \<Rightarrow> AppleScriptBuilder" where
  "tell application b =
     b @ [''tell application '' @ [dquote] @ escapeAppleScriptString application @ [dquote]]"

definition endTell :: "AppleScriptBuilder \<Rightarrow> AppleScriptBuilder" where
  "endTell b = b @ [''end tell'']"

definition setVariable :: "string \<Rightarrow> string \<Rightarrow> AppleScriptBuilder \<Rightarrow> AppleScriptBuilder" where
  "setVariable name val b =
     b @ [''set '' @ escapeAppleScriptIdentifier name @ '' to '' @ [dquote]
            @ escapeAppleScriptString val @ [dquote]]"

definition raw :: "string \<Rightarrow> AppleScriptBuilder \<Rightarrow> AppleScriptBuilder" where
  "raw line b = b @ [line]"

definition build :: "AppleScriptBuilder \<Rightarrow> string" where
  "build b = join [newline] b"

text \<open>
  A JavaScript value, as \<open>JSON.parse\<close> returns it and as the details of an audit entry hold
  it. An object is the association list of its own properties.
\<close>

datatype jsval =
    JUndefined
  | JNull
  | JBool bool
  | JNum number
  | JStr string
  | JArr "jsval list"
  | JObj "(string \<times> jsval) list"

record AuditLogEntry =
  timestamp :: int
  operation :: string
  user :: "string option"
  details :: "(string \<times> jsval) list"
  success :: bool
  error :: "string option"

text \<open>
  \<open>AuditLogger.log\<close>: the logger is its list of entries, the entry comes without time stamp
  and \<open>now\<close> is the time of the call. (The line written to the console is not modelled.)
\<close>

definition AuditLogger_log :: "int \<Rightarrow> AuditLogEntry \<Rightarrow> AuditLogEntry list \<Rightarrow> AuditLogEntry list" where
  "AuditLogger_log now entry logs = logs @ [entry\<lparr>timestamp := now\<rparr>]"

definition getRecentLogs :: "int \<Rightarrow> AuditLogEntry list \<Rightarrow> AuditLogEntry list" where
  "getRecentLogs n logs =
     (if 0 < n then drop (length logs - nat n) logs else drop (nat (- n)) logs)"

section \<open>The mail operations\<close>

subsection \<open>Values and strings\<close>

fun truthy :: "jsval \<Rightarrow> bool" where
  "truthy JUndefined = False"
| "truthy JNull = False"
| "truthy (JBool b) = b"
| "truthy (JNum n) = (n \<noteq> NaN \<and> n \<noteq> Finite 0)"
| "truthy (JStr s) = (s \<noteq> [])"
| "truthy (JArr _) = True"
| "truthy (JObj _) = True"

text \<open>\<open>a || b\<close>.\<close>

definition or_else :: "jsval \<Rightarrow> jsval \<Rightarrow> jsval" where
  "or_else a b = (if truthy a then a else b)"

text \<open>
  \<open>msg.name\<close> for the property names that the module reads (subject, sender, date, content,
  mailbox, isRead, boxName): none of them is a property of a string, a number, a boolean or
  an array. Reading a property of null or undefined throws a TypeError.
\<close>

fun property_of :: "jsval \<Rightarrow> string \<Rightarrow> jsval" where
  "property_of (JObj props) name = (case map_of props name of None \<Rightarrow> JUndefined | Some v \<Rightarrow> v)"
| "property_of _ name = JUndefined"

definition has_no_properties :: "jsval \<Rightarrow> bool" where
  "has_no_properties v = (v = JNull \<or> v = JUndefined)"

definition startsWith :: "string \<Rightarrow> string \<Rightarrow> bool" where
  "startsWith s p = (take (length p) s = p)"

fun str_includes :: "string \<Rightarrow> string \<Rightarrow> bool" where
  "str_includes [] p = (p = [])"
| "str_includes (x # xs) p = (startsWith (x # xs) p \<or> str_includes xs p)"

text \<open>\<open>s.split(c)\<close> for a separator of one character: never an empty list.\<close>

fun split_on :: "char \<Rightarrow> string \<Rightarrow> string list" where
  "split_on c [] = [[]]"
| "split_on c (x # xs) =
     (let r = split_on c xs in if x = c then [] # r else (x # hd r) # tl r)"

text \<open>
  \<open>s.match(/\{([^}]+)\}/g)\<close>: the matches from left to right. A match starts at an opening
  brace, takes the characters up to the next closing brace, of which there is at least one,
  and that brace; the search goes on behind it. An opening brace with no such continuation
  starts no match.
\<close>

function match_groups :: "string \<Rightarrow> string list" where
  "match_groups [] = []"
| "match_groups (c # rest) =
     (if c = CHR ''{'' then
        (let body = takeWhile (\<lambda>x. x \<noteq> CHR ''}'') rest;
             following = dropWhile (\<lambda>x. x \<noteq> CHR ''}'') rest
         in if body \<noteq> [] \<and> following \<noteq> []
            then (c # body @ ''}'') # match_groups (tl following)
            else match_groups rest)
      else match_groups rest)"
  by pat_completeness auto
termination
proof (relation "measure length")
  fix c :: char and rest body following :: string
  assume "following = dropWhile (\<lambda>x. x \<noteq> CHR ''}'') rest"
  then have "length following \<le> length rest"
    by (simp add: length_dropWhile_le)
  then have "length (tl following) \<le> length rest"
    by simp
  then show "(tl following, c # rest) \<in> measure length" by simp
qed simp_all

subsection \<open>The outside world\<close>

text \<open>
  The scripts that the module hands to the interpreter. A script with a fixed text is named
  by what it asks; a script with interpolated values carries them.
\<close>

datatype script =
    MailProcessExists
  | ActivateMail
  | CountMailboxes
  | MailVersion
  | EnsureMailRunning
  | UnreadMessages number
  | SearchMessages string number
  | AccountNames
  | UnreadCounts
  | ScriptText string

datatype invocation =
    RunAppleScript script
  | RunUnread number
  | RunSearch string number
  | RunSend string string string "string option" "string option"

record EmailMessage =
  subject :: jsval
  sender :: jsval
  dateSent :: jsval
  content :: jsval
  isRead :: jsval
  mailbox :: jsval

text \<open>
  What the module calls and does not define: the script interpreter (\<open>runAppleScript\<close>), the
  object automation (\<open>run\<close>, one field for each of the three functions that the module passes
  to it, with their arguments), \<open>JSON.parse\<close> (\<open>None\<close> when it throws), the clock, and the
  library's check of an email address. An outside call answers with a value or an error and
  moves the world \<open>'w\<close> on.
\<close>

record 'w externals =
  runAppleScript :: "script \<Rightarrow> 'w \<Rightarrow> (js_error + string) \<times> 'w"
  run_unread :: "number \<Rightarrow> 'w \<Rightarrow> (js_error + EmailMessage list) \<times> 'w"
  run_search :: "string \<Rightarrow> number \<Rightarrow> 'w \<Rightarrow> (js_error + EmailMessage list) \<times> 'w"
  run_send :: "string \<Rightarrow> string \<Rightarrow> string \<Rightarrow> string option \<Rightarrow> string option \<Rightarrow> 'w
                 \<Rightarrow> (js_error + string) \<times> 'w"
  JSON_parse :: "string \<Rightarrow> jsval option"
  Date_now :: "'w \<Rightarrow> int"
  Date_string :: "'w \<Rightarrow> string"
  isEmail :: "string \<Rightarrow> bool"

text \<open>
  The state that an operation works on: the world outside, the calls made to it so far, the
  module's rate limiters and the audit logger's entries. What the module writes to the console
  is not part of it.
\<close>

record 'w system =
  world :: 'w
  invocations :: "invocation list"
  limiters :: rateLimiters
  auditLog :: "AuditLogEntry list"

definition call_script ::
  "'w externals \<Rightarrow> script \<Rightarrow> 'w system \<Rightarrow> (js_error + string) \<times> 'w system" where
  "call_script ext sc s =
     (let (r, w) = runAppleScript ext sc (world s)
      in (r, s\<lparr>world := w, invocations := invocations s @ [RunAppleScript sc]\<rparr>))"

definition call_run_unread ::
  "'w externals \<Rightarrow> number \<Rightarrow> 'w system \<Rightarrow> (js_error + EmailMessage list) \<times> 'w system" where
  "call_run_unread ext limit s =
     (let (r, w) = run_unread ext limit (world s)
      in (r, s\<lparr>world := w, invocations := invocations s @ [RunUnread limit]\<rparr>))"

definition call_run_search ::
  "'w externals \<Rightarrow> string \<Rightarrow> number \<Rightarrow> 'w system
     \<Rightarrow> (js_error + EmailMessage list) \<times> 'w system" where
  "call_run_search ext searchTerm limit s =
     (let (r, w) = run_search ext searchTerm limit (world s)
      in (r, s\<lparr>world := w, invocations := invocations s @ [RunSearch searchTerm limit]\<rparr>))"

definition call_run_send ::
  "'w externals \<Rightarrow> string \<Rightarrow> string \<Rightarrow> string \<Rightarrow> string option \<Rightarrow> string option
     \<Rightarrow> 'w system \<Rightarrow> (js_error + string) \<times> 'w system" where
  "call_run_send ext to subj body cc bcc s =
     (let (r, w) = run_send ext to subj body cc bcc (world s)
      in (r, s\<lparr>world := w, invocations := invocations s @ [RunSend to subj body cc bcc]\<rparr>))"

subsection \<open>checkMailAccess\<close>

definition checkMailAccess :: "'w externals \<Rightarrow> 'w system \<Rightarrow> (js_error + bool) \<times> 'w system" where
  "checkMailAccess ext s =
     (let attempt =
        (case call_script ext MailProcessExists s of
           (Inl e, s1) \<Rightarrow> (Inl e, s1)
         | (Inr isRunning, s1) \<Rightarrow>
             (let activated =
                (if isRunning \<noteq> ''true'' then
                   (case call_script ext ActivateMail s1 of
                      (Inl activateError, s2) \<Rightarrow>
                        (Inl (Error ''Could not activate Mail app. Please start it manually.''), s2)
                    | (Inr _, s2) \<Rightarrow> (Inr (), s2))
                 else (Inr (), s1))
              in case activated of
                   (Inl e, s2) \<Rightarrow> (Inl e, s2)
                 | (Inr _, s2) \<Rightarrow>
                     (case call_script ext CountMailboxes s2 of
                        (Inr _, s3) \<Rightarrow> (Inr True, s3)
                      | (Inl mailboxError, s3) \<Rightarrow>
                          (case call_script ext MailVersion s3 of
                             (Inr mailVersion, s4) \<Rightarrow> (Inr True, s4)
                           | (Inl versionError, s4) \<Rightarrow>
                               (Inl (Error (''Mail app is running but cannot access mailboxes. ''
                                   @ ''Please check permissions and configuration.'')), s4)))))
      in case attempt of
           (Inr ok, s') \<Rightarrow> (Inr ok, s')
         | (Inl e, s') \<Rightarrow>
             (Inl (Error (''Cannot access Mail app. Please make sure Mail is running and ''
                 @ ''properly configured. Error: '' @ error_message e)), s'))"

subsection \<open>getUnreadMails\<close>

text \<open>How a \<open>try\<close> block ends: by a \<open>return\<close>, by a throw, or by running to its end.\<close>

datatype 'a block_end = Returned 'a | Thrown js_error | Completed

text \<open>The mapping of the parsed JSON array; a \<open>null\<close> element makes the property read throw.\<close>

definition unread_of_json :: "string \<Rightarrow> jsval \<Rightarrow> js_error + EmailMessage" where
  "unread_of_json now msg =
     (if has_no_properties msg then Inl (TypeError ''Cannot read properties of null'')
      else
        Inr \<lparr>subject = or_else (property_of msg ''subject'') (JStr ''No subject''),
             sender = or_else (property_of msg ''sender'') (JStr ''Unknown sender''),
             dateSent = or_else (property_of msg ''date'') (JStr now),
             content = or_else (property_of msg ''content'') (JStr ''[Content not available]''),
             isRead = JBool False,
             mailbox = or_else (property_of msg ''mailbox'') (JStr ''Unknown mailbox'')\<rparr>)"

fun map_throwing :: "('a \<Rightarrow> js_error + 'b) \<Rightarrow> 'a list \<Rightarrow> js_error + 'b list" where
  "map_throwing f [] = Inr []"
| "map_throwing f (x # xs) =
     (case f x of
        Inl e \<Rightarrow> Inl e
      | Inr y \<Rightarrow> (case map_throwing f xs of Inl e \<Rightarrow> Inl e | Inr ys \<Rightarrow> Inr (y # ys)))"

text \<open>
  The record scan. \<open>emailData\<close> is a map from keys to strings; an assignment to the key
  \<open>__proto__\<close> of a string stores nothing.
\<close>

definition assign_prop :: "(string \<rightharpoonup> string) \<Rightarrow> string \<Rightarrow> (string \<rightharpoonup> string)" where
  "assign_prop emailData prop =
     (let parts = split_on (CHR '':'') prop
      in if length parts \<ge> 2 then
           (let key = trim (hd parts);
                val = trim (join '':'' (tl parts))
            in if key = ''__proto__'' then emailData else emailData(key \<mapsto> val))
         else emailData)"

definition email_of_group :: "string \<Rightarrow> string \<Rightarrow> EmailMessage option" where
  "email_of_group now matched =
     (let props = split_on (CHR '','') (take (length matched - 2) (drop 1 matched));
          emailData = foldl assign_prop Map.empty props
      in if \<not> falsy (emailData ''subject'') \<or> \<not> falsy (emailData ''sender'') then
           Some \<lparr>subject = JStr (or_default (emailData ''subject'') ''No subject''),
                 sender = JStr (or_default (emailData ''sender'') ''Unknown sender''),
                 dateSent = JStr (or_default (emailData ''date'') now),
                 content = JStr (or_default (emailData ''content'') ''[Content not available]''),
                 isRead = JBool False,
                 mailbox = JStr (or_default (emailData ''mailbox'') ''Unknown mailbox'')\<rparr>
         else None)"

definition scan_records :: "string \<Rightarrow> string \<Rightarrow> EmailMessage list" where
  "scan_records now asResult = List.map_filter (email_of_group now) (match_groups asResult)"

text \<open>
  The inner \<open>try\<close> block that parses the output of the script: first the statement that
  tries JSON, then, when that statement neither returns nor throws, the record scan.
\<close>

definition unread_json_step ::
  "(string \<Rightarrow> jsval option) \<Rightarrow> string \<Rightarrow> string \<Rightarrow> EmailMessage list block_end" where
  "unread_json_step parse now asResult =
     (if startsWith asResult ''{'' \<or> startsWith asResult ''['' then
        (case parse asResult of
           None \<Rightarrow> Thrown (SyntaxError ''JSON.parse'')
         | Some parsedResults \<Rightarrow>
             (case parsedResults of
                JArr msgs \<Rightarrow>
                  if length msgs > 0 then
                    (case map_throwing (unread_of_json now) msgs of
                       Inl e \<Rightarrow> Thrown e
                     | Inr mails \<Rightarrow> Returned mails)
                  else Completed
              | _ \<Rightarrow> Completed))
      else Completed)"

definition unread_parse_block ::
  "(string \<Rightarrow> jsval option) \<Rightarrow> string \<Rightarrow> string \<Rightarrow> EmailMessage list block_end" where
  "unread_parse_block parse now asResult =
     (case unread_json_step parse now asResult of
        Completed \<Rightarrow>
          (let parsedEmails = scan_records now asResult
           in if length parsedEmails > 0 then Returned parsedEmails else Completed)
      | Returned mails \<Rightarrow> Returned mails
      | Thrown e \<Rightarrow> Thrown e)"

definition raw_output_record :: "string \<Rightarrow> string \<Rightarrow> EmailMessage" where
  "raw_output_record now asResult =
     \<lparr>subject = JStr ''Raw AppleScript Output'',
      sender = JStr ''Mail System'',
      dateSent = JStr now,
      content = JStr (''Could not parse Mail data properly. Raw output: '' @ asResult),
      isRead = JBool False,
      mailbox = JStr ''Debug''\<rparr>"

text \<open>
  What the function does with the output of the first script: \<open>Some\<close> is the list it
  returns, \<open>None\<close> means that it goes on to the second approach.
\<close>

definition unread_from_output ::
  "(string \<Rightarrow> jsval option) \<Rightarrow> string \<Rightarrow> string \<Rightarrow> EmailMessage list option" where
  "unread_from_output parse now asResult =
     (case (if asResult \<noteq> [] \<and> length (trim asResult) > 0
            then unread_parse_block parse now asResult else Completed) of
        Returned mails \<Rightarrow> Some mails
      | _ \<Rightarrow>
          if str_includes asResult ''subject'' \<and> str_includes asResult ''sender''
          then Some [raw_output_record now asResult]
          else None)"

definition getUnreadMails ::
  "'w externals \<Rightarrow> 'w system \<Rightarrow> number option
     \<Rightarrow> (js_error + EmailMessage list) \<times> 'w system" where
  "getUnreadMails ext s limit_arg =
     (let limit = (case limit_arg of None \<Rightarrow> Finite 10 | Some l \<Rightarrow> l);
          second_approach = (\<lambda>s2.
            case call_script ext AccountNames s2 of
              (Inl e, s3) \<Rightarrow> (Inl e, s3)
            | (Inr accounts, s3) \<Rightarrow>
                (case call_script ext UnreadCounts s3 of
                   (Inl e, s4) \<Rightarrow> (Inl e, s4)
                 | (Inr unreadInfo, s4) \<Rightarrow> call_run_unread ext limit s4));
          attempt =
            (case checkMailAccess ext s of
               (Inl e, s1) \<Rightarrow> (Inl e, s1)
             | (Inr ok, s1) \<Rightarrow>
                 if \<not> ok then (Inr [], s1)
                 else
                   (case call_script ext (UnreadMessages limit) s1 of
                      (Inl asError, s2) \<Rightarrow> second_approach s2
                    | (Inr asResult, s2) \<Rightarrow>
                        (case unread_from_output (JSON_parse ext) (Date_string ext (world s2))
                                asResult of
                           Some mails \<Rightarrow> (Inr mails, s2)
                         | None \<Rightarrow> second_approach s2)))
      in case attempt of
           (Inr mails, s') \<Rightarrow> (Inr mails, s')
         | (Inl e, s') \<Rightarrow> (Inl (Error (''Error accessing mail: '' @ error_message e)), s'))"

subsection \<open>searchMails\<close>

definition search_of_json :: "string \<Rightarrow> jsval \<Rightarrow> js_error + EmailMessage" where
  "search_of_json now msg =
     (if has_no_properties msg then Inl (TypeError ''Cannot read properties of null'')
      else
        Inr \<lparr>subject = or_else (property_of msg ''subject'') (JStr ''No subject''),
             sender = or_else (property_of msg ''sender'') (JStr ''Unknown sender''),
             dateSent = or_else (property_of msg ''date'') (JStr now),
             content = JStr ''[Content not available through AppleScript method]'',
             isRead = or_else (property_of msg ''isRead'') (JBool False),
             mailbox = or_else (property_of msg ''boxName'') (JStr ''Unknown mailbox'')\<rparr>)"

definition search_from_output ::
  "(string \<Rightarrow> jsval option) \<Rightarrow> string \<Rightarrow> string \<Rightarrow> EmailMessage list option" where
  "search_from_output parse now asResult =
     (if asResult \<noteq> [] \<and> length asResult > 0 then
        (case parse asResult of
           None \<Rightarrow> None
         | Some parsedResults \<Rightarrow>
             (case parsedResults of
                JArr msgs \<Rightarrow>
                  if length msgs > 0 then
                    (case map_throwing (search_of_json now) msgs of
                       Inl e \<Rightarrow> None
                     | Inr mails \<Rightarrow> Some mails)
                  else None
              | _ \<Rightarrow> None))
      else None)"

definition rate_limit_error :: js_error where
  "rate_limit_error = Error ''Rate limit exceeded. Please try again later.''"

definition searchMails ::
  "'w externals \<Rightarrow> securityConfig \<Rightarrow> 'w system \<Rightarrow> string \<Rightarrow> number option
     \<Rightarrow> (js_error + EmailMessage list) \<times> 'w system" where
  "searchMails ext cfg s searchTerm limit_arg =
     (let limit = (case limit_arg of None \<Rightarrow> Finite 10 | Some l \<Rightarrow> l);
          attempt =
            (case validateSearchQuery searchTerm of
               Inl e \<Rightarrow> (Inl e, s)
             | Inr validatedSearchTerm \<Rightarrow>
                 (let safeLimit = sanitizeLimit limit (Some (maxSearchResults cfg));
                      (allowed, s0) =
                        (if enableRateLimiting cfg then
                           (let (ok1, l1) = check (Date_now ext (world s)) ''global''
                                              (search (limiters s));
                                sa = s\<lparr>limiters := (limiters s)\<lparr>search := l1\<rparr>\<rparr>
                            in if \<not> ok1 then (False, sa)
                               else
                                 (let (ok2, l2) = check (Date_now ext (world sa)) ''global''
                                                    (global (limiters sa))
                                  in (ok2, sa\<lparr>limiters := (limiters sa)\<lparr>global := l2\<rparr>\<rparr>)))
                         else (True, s))
                  in if \<not> allowed then (Inl rate_limit_error, s0)
                     else
                       (case checkMailAccess ext s0 of
                          (Inl e, s1) \<Rightarrow> (Inl e, s1)
                        | (Inr ok, s1) \<Rightarrow>
                            if \<not> ok then (Inr [], s1)
                            else
                              (case call_script ext EnsureMailRunning s1 of
                                 (Inl e, s2) \<Rightarrow> (Inl e, s2)
                               | (Inr _, s2) \<Rightarrow>
                                   (let (first, s3) =
                                      (case call_script ext
                                              (SearchMessages
                                                 (escapeAppleScriptString validatedSearchTerm)
                                                 safeLimit) s2 of
                                         (Inl asError, s3) \<Rightarrow> (None, s3)
                                       | (Inr asResult, s3) \<Rightarrow>
                                           (search_from_output (JSON_parse ext)
                                              (Date_string ext (world s3)) asResult, s3))
                                    in case first of
                                         Some mails \<Rightarrow> (Inr mails, s3)
                                       | None \<Rightarrow>
                                           call_run_search ext validatedSearchTerm safeLimit
                                             s3)))))
      in case attempt of
           (Inr mails, s') \<Rightarrow> (Inr mails, s')
         | (Inl e, s') \<Rightarrow> (Inl (Error (''Error searching mail: '' @ error_message e)), s'))"

subsection \<open>sendMail\<close>

text \<open>\<open>v ? validateEmail(v) : undefined\<close> for an optional address.\<close>

definition validate_optional_email ::
  "(string \<Rightarrow> bool) \<Rightarrow> string option \<Rightarrow> js_error + string option" where
  "validate_optional_email check_email v =
     (if falsy v then Inr None
      else (case validateEmail check_email (the v) of Inl e \<Rightarrow> Inl e | Inr a \<Rightarrow> Inr (Some a)))"

definition undefined_or_string :: "string option \<Rightarrow> jsval" where
  "undefined_or_string v = (case v of None \<Rightarrow> JUndefined | Some x \<Rightarrow> JStr x)"

definition send_script ::
  "string \<Rightarrow> string \<Rightarrow> string \<Rightarrow> string option \<Rightarrow> string option \<Rightarrow> string" where
  "send_script validatedTo validatedSubject validatedBody validatedCc validatedBcc =
     (let escapedTo = escapeAppleScriptString validatedTo;
          escapedSubject = escapeAppleScriptString validatedSubject;
          escapedBody = escapeAppleScriptString validatedBody;
          escapedCc = (if \<not> falsy validatedCc then escapeAppleScriptString (the validatedCc) else '''');
          escapedBcc = (if \<not> falsy validatedBcc then escapeAppleScriptString (the validatedBcc)
                        else '''');
          b1 = raw (''make new to recipient with properties {address:'' @ [dquote] @ escapedTo
                      @ [dquote] @ ''}'')
                 (raw ''tell newMessage''
                    (raw (''set newMessage to make new outgoing message with properties {subject:''
                            @ [dquote] @ escapedSubject @ [dquote] @ '', content:'' @ [dquote]
                            @ escapedBody @ [dquote] @ '', visible:true}'')
                       (tell ''Mail'' [])));
          b2 = (if \<not> falsy validatedCc
                then raw (''make new cc recipient with properties {address:'' @ [dquote]
                            @ escapedCc @ [dquote] @ ''}'') b1
                else b1);
          b3 = (if \<not> falsy validatedBcc
                then raw (''make new bcc recipient with properties {address:'' @ [dquote]
                            @ escapedBcc @ [dquote] @ ''}'') b2
                else b2)
      in build (endTell (raw (''return '' @ [dquote] @ ''success'' @ [dquote])
                  (raw ''send newMessage'' (raw ''end tell'' b3)))))"

definition sendMail ::
  "'w externals \<Rightarrow> securityConfig \<Rightarrow> 'w system \<Rightarrow> string \<Rightarrow> string \<Rightarrow> string
     \<Rightarrow> string option \<Rightarrow> string option \<Rightarrow> (js_error + string option) \<times> 'w system" where
  "sendMail ext cfg s to subj body cc bcc =
     (let attempt =
        (case validateEmail (isEmail ext) to of
           Inl e \<Rightarrow> (Inl e, s)
         | Inr validatedTo \<Rightarrow>
        (case validateMessageContent subj of
           Inl e \<Rightarrow> (Inl e, s)
         | Inr validatedSubject \<Rightarrow>
        (case validateMessageContent body of
           Inl e \<Rightarrow> (Inl e, s)
         | Inr validatedBody \<Rightarrow>
        (case validate_optional_email (isEmail ext) cc of
           Inl e \<Rightarrow> (Inl e, s)
         | Inr validatedCc \<Rightarrow>
        (case validate_optional_email (isEmail ext) bcc of
           Inl e \<Rightarrow> (Inl e, s)
         | Inr validatedBcc \<Rightarrow>
             (let (allowed, s0) =
                    (if enableRateLimiting cfg then
                       (let (ok1, l1) = check (Date_now ext (world s)) ''global''
                                          (emails (limiters s));
                            sa = s\<lparr>limiters := (limiters s)\<lparr>emails := l1\<rparr>\<rparr>
                        in if \<not> ok1 then (False, sa)
                           else
                             (let (ok2, l2) = check (Date_now ext (world sa)) ''global''
                                                (global (limiters sa))
                              in (ok2, sa\<lparr>limiters := (limiters sa)\<lparr>global := l2\<rparr>\<rparr>)))
                     else (True, s))
              in if \<not> allowed then (Inl rate_limit_error, s0)
                 else
                   (case checkMailAccess ext s0 of
                      (Inl e, s1) \<Rightarrow> (Inl e, s1)
                    | (Inr ok, s1) \<Rightarrow>
                        if \<not> ok then (Inl (Error ''Could not access Mail app''), s1)
                        else
                          (case call_script ext EnsureMailRunning s1 of
                             (Inl e, s2) \<Rightarrow> (Inl e, s2)
                           | (Inr _, s2) \<Rightarrow>
                               (case call_script ext
                                       (ScriptText (send_script validatedTo validatedSubject
                                          validatedBody validatedCc validatedBcc)) s2 of
                                  (Inr result, s3) \<Rightarrow>
                                    if result = ''success'' then
                                      (Inr (Some (''Email sent to '' @ validatedTo
                                              @ '' with subject '' @ [dquote] @ validatedSubject
                                              @ [dquote])),
                                       if enableAuditLogging cfg then
                                         s3\<lparr>auditLog :=
                                              AuditLogger_log (Date_now ext (world s3))
                                                \<lparr>timestamp = 0,
                                                 operation = ''sendMail'',
                                                 user = None,
                                                 details =
                                                   [(''to'', JStr validatedTo),
                                                    (''subject'', JStr (take 50 validatedSubject)),
                                                    (''cc'', undefined_or_string validatedCc),
                                                    (''bcc'', undefined_or_string validatedBcc)],
                                                 success = True,
                                                 error = None\<rparr>
                                                (auditLog s3)\<rparr>
                                       else s3)
                                    else (Inr None, s3)
                                | (Inl asError, s3) \<Rightarrow>
                                    (case call_run_send ext to subj body cc bcc s3 of
                                       (Inl e, s4) \<Rightarrow> (Inl e, s4)
                                     | (Inr jxaResult, s4) \<Rightarrow>
                                         if startsWith jxaResult ''JXA error:''
                                         then (Inl (Error jxaResult), s4)
                                         else (Inr (Some (''Email sent to '' @ to
                                                 @ '' with subject '' @ [dquote] @ subj
                                                 @ [dquote])), s4)))))))))))
      in case attempt of
           (Inr r, s') \<Rightarrow> (Inr r, s')
         | (Inl e, s') \<Rightarrow> (Inl (Error (''Error sending mail: '' @ error_message e)), s'))"

section \<open>utils/database.ts\<close>

text \<open>
  A query parameter is a string or a number. The numbers are taken to be integers below
  \<open>10^21\<close> in absolute value, for which \<open>String(n)\<close> is the decimal numeral (beyond that,
  and for other numbers, JavaScript prints an exponent or a fraction, \<open>NaN\<close> or \<open>Infinity\<close>).
\<close>

datatype sql_param = PString string | PNumber int

definition digit_char :: "nat \<Rightarrow> char" where
  "digit_char d = ''0123456789'' ! d"

fun nat_digits :: "nat \<Rightarrow> string" where
  "nat_digits n = (if n < 10 then [digit_char n] else nat_digits (n div 10) @ [digit_char (n mod 10)])"

definition String_of_int :: "int \<Rightarrow> string" where
  "String_of_int i = (if i < 0 then CHR ''-'' # nat_digits (nat (- i)) else nat_digits (nat i))"

text \<open>
  \<open>str.replace(c, replacement)\<close> with a one-character string \<open>c\<close> as the pattern: only the
  first occurrence is replaced, and in the replacement text the runtime expands \<open>$$\<close> to a
  dollar, \<open>$&\<close> to the matched text, dollar-backquote to the text before the match and
  dollar-quote to the text after it.
\<close>

fun getSubstitution :: "string \<Rightarrow> string \<Rightarrow> string \<Rightarrow> string \<Rightarrow> string" where
  "getSubstitution matched preceding following (a # b # rest) =
     (if a = CHR ''$'' \<and> b = CHR ''$'' then CHR ''$'' # getSubstitution matched preceding following rest
      else if a = CHR ''$'' \<and> b = CHR ''&'' then matched @ getSubstitution matched preceding following rest
      else if a = CHR ''$'' \<and> b = CHR 0x60 then preceding @ getSubstitution matched preceding following rest
      else if a = CHR ''$'' \<and> b = squote then following @ getSubstitution matched preceding following rest
      else a # getSubstitution matched preceding following (b # rest))"
| "getSubstitution matched preceding following s = s"

definition replace_first :: "char \<Rightarrow> string \<Rightarrow> string \<Rightarrow> string" where
  "replace_first c replacement str =
     (let preceding = takeWhile (\<lambda>x. x \<noteq> c) str
      in case dropWhile (\<lambda>x. x \<noteq> c) str of
           [] \<Rightarrow> str
         | _ # following \<Rightarrow> preceding @ getSubstitution [c] preceding following replacement @ following)"

definition escaped_param :: "sql_param \<Rightarrow> string" where
  "escaped_param param =
     (case param of
        PString s \<Rightarrow> [squote] @ replace_all_char squote [squote, squote] s @ [squote]
      | PNumber n \<Rightarrow> String_of_int n)"

text \<open>The loop of \<open>executeSqliteQuery\<close> over the parameters, from the query as given.\<close>

fun parameterizedQuery :: "string \<Rightarrow> sql_param list \<Rightarrow> string" where
  "parameterizedQuery query [] = query"
| "parameterizedQuery query (param # parameters) =
     parameterizedQuery (replace_first (CHR ''?'') (escaped_param param) query) parameters"

text \<open>
  The process: \<open>spawn\<close> gets the program and its argument vector; the process fails to start
  or closes with an exit code (none when a signal ended it) and what it wrote.
\<close>

datatype process_end = SpawnError js_error | Closed "int option" string string

definition executeSqliteQuery ::
  "(string \<Rightarrow> string list \<Rightarrow> process_end) \<Rightarrow> string \<Rightarrow> string \<Rightarrow> sql_param list
     \<Rightarrow> js_error + string \<times> string" where
  "executeSqliteQuery spawn dbPath query parameters =
     (case spawn ''sqlite3'' [''-json'', dbPath, parameterizedQuery query parameters] of
        SpawnError e \<Rightarrow> Inl e
      | Closed code stdout stderr \<Rightarrow>
          if code \<noteq> Some 0
          then Inl (Error (''SQLite process exited with code ''
                 @ (case code of None \<Rightarrow> ''null'' | Some n \<Rightarrow> String_of_int n) @ '': '' @ stderr))
          else Inr (stdout, stderr))"

definition buildSafeInClause :: "string list \<Rightarrow> string \<times> string list" where
  "buildSafeInClause vals =
     (if length vals = 0 then (''(NULL)'', [])
      else (''('' @ concat (map (\<lambda>i. if i = 0 then ''?'' else '',?'') [0..<length vals]) @ '')'', vals))"

text \<open>
  The substitution as the specification describes it. The source has no such function; this
  one follows the specification's words: the placeholders of the template, from left to
  right, receive the literals of the parameters in their order. A placeholder without a
  parameter stays.
\<close>

fun substitute_in_order :: "string \<Rightarrow> string list \<Rightarrow> string" where
  "substitute_in_order [] vs = []"
| "substitute_in_order (c # cs) [] = c # substitute_in_order cs []"
| "substitute_in_order (c # cs) (v # vs) =
     (if c = CHR ''?'' then v @ substitute_in_order cs vs else c # substitute_in_order cs (v # vs))"

section \<open>Example worlds and auxiliary definitions\<close>

text \<open>
  Three outside worlds for the examples below, all without state. In the first no outside call
  succeeds. In the second the Mail application answers, the script that sends the message
  throws, and the object automation reports an error of its own. In the third every call
  succeeds, and the script for the unread messages answers with a text that names a subject,
  a date, a mailbox and a content, and no sender.
\<close>

definition unreachable_world :: "unit externals" where
  "unreachable_world =
     \<lparr>runAppleScript = (\<lambda>sc w. (Inl (Error ''osascript failed''), w)),
      run_unread = (\<lambda>limit w. (Inl (Error ''osascript failed''), w)),
      run_search = (\<lambda>searchTerm limit w. (Inl (Error ''osascript failed''), w)),
      run_send = (\<lambda>to subj body cc bcc w. (Inl (Error ''osascript failed''), w)),
      JSON_parse = (\<lambda>text. None),
      Date_now = (\<lambda>w. 1000),
      Date_string = (\<lambda>w. ''Mon Nov 02 2026''),
      isEmail = (\<lambda>a. CHR ''@'' \<in> set a)\<rparr>"

definition failing_send_world :: "unit externals" where
  "failing_send_world =
     \<lparr>runAppleScript = (\<lambda>sc w.
        case sc of
          MailProcessExists \<Rightarrow> (Inr ''true'', w)
        | CountMailboxes \<Rightarrow> (Inr ''3'', w)
        | EnsureMailRunning \<Rightarrow> (Inr '''', w)
        | UnreadMessages limit \<Rightarrow> (Inr ''items {id:7, box:INBOX} subject, sender'', w)
        | _ \<Rightarrow> (Inl (Error ''script failed''), w)),
      run_unread = (\<lambda>limit w. (Inr [], w)),
      run_search = (\<lambda>searchTerm limit w. (Inr [], w)),
      run_send = (\<lambda>to subj body cc bcc w. (Inr ''JXA error: Error: Mail got an error'', w)),
      JSON_parse = (\<lambda>text. None),
      Date_now = (\<lambda>w. 1000),
      Date_string = (\<lambda>w. ''Mon Nov 02 2026''),
      isEmail = (\<lambda>a. CHR ''@'' \<in> set a)\<rparr>"

definition no_sender_world :: "unit externals" where
  "no_sender_world =
     \<lparr>runAppleScript = (\<lambda>sc w.
        case sc of
          MailProcessExists \<Rightarrow> (Inr ''true'', w)
        | UnreadMessages limit \<Rightarrow>
            (Inr ''subject: Hi, date: Monday, mailbox: INBOX, content: x'', w)
        | _ \<Rightarrow> (Inr '''', w)),
      run_unread = (\<lambda>limit w. (Inr [], w)),
      run_search = (\<lambda>searchTerm limit w. (Inr [], w)),
      run_send = (\<lambda>to subj body cc bcc w. (Inr ''JXA send completed'', w)),
      JSON_parse = (\<lambda>text. None),
      Date_now = (\<lambda>w. 1000),
      Date_string = (\<lambda>w. ''Mon Nov 02 2026''),
      isEmail = (\<lambda>a. CHR ''@'' \<in> set a)\<rparr>"

definition initial_system :: "'w \<Rightarrow> 'w system" where
  "initial_system w =
     \<lparr>world = w, invocations = [], limiters = initial_rateLimiters, auditLog = []\<rparr>"

definition default_config :: securityConfig where
  "default_config = securityConfig_of_env Map.empty"

text \<open>What the five passes of \<open>escapeAppleScriptString\<close> do to one character.\<close>

definition escape_char :: "char \<Rightarrow> string" where
  "escape_char c =
     (if c = backslash then [backslash, backslash]
      else if c = dquote then [backslash, dquote]
      else if c = newline then [backslash, CHR ''n'']
      else if c = creturn then [backslash, CHR ''r'']
      else if c = tab then [backslash, CHR ''t'']
      else [c])"

section \<open>Escaping round trip\<close>

lemma special_chars_distinct:
  "backslash \<noteq> dquote" "backslash \<noteq> newline" "backslash \<noteq> creturn" "backslash \<noteq> tab"
  "dquote \<noteq> newline" "dquote \<noteq> creturn" "dquote \<noteq> tab"
  "newline \<noteq> creturn" "newline \<noteq> tab" "creturn \<noteq> tab"
  "backslash \<noteq> CHR ''n''" "backslash \<noteq> CHR ''r''" "backslash \<noteq> CHR ''t''"
  "dquote \<noteq> CHR ''n''" "dquote \<noteq> CHR ''r''" "dquote \<noteq> CHR ''t''"
  "newline \<noteq> CHR ''n''" "newline \<noteq> CHR ''r''" "newline \<noteq> CHR ''t''"
  "creturn \<noteq> CHR ''n''" "creturn \<noteq> CHR ''r''" "creturn \<noteq> CHR ''t''"
  "tab \<noteq> CHR ''n''" "tab \<noteq> CHR ''r''" "tab \<noteq> CHR ''t''"
  by (simp_all add: backslash_def dquote_def newline_def creturn_def tab_def)

lemma replace_all_char_Nil: "replace_all_char c r [] = []"
  by (simp add: replace_all_char_def)

lemma replace_all_char_Cons:
  "replace_all_char c r (x # s) = (if x = c then r else [x]) @ replace_all_char c r s"
  by (simp add: replace_all_char_def)

lemma replace_all_char_append:
  "replace_all_char c r (s @ t) = replace_all_char c r s @ replace_all_char c r t"
  by (simp add: replace_all_char_def)

text \<open>The five passes together are one pass that escapes each character on its own.\<close>

lemma escapeAppleScriptString_concat:
  "escapeAppleScriptString s = concat (map escape_char s)"
proof (induction s)
  case Nil
  show ?case by (simp add: escapeAppleScriptString_def replace_all_char_Nil)
next
  case (Cons c s)
  have "escapeAppleScriptString (c # s) = escape_char c @ escapeAppleScriptString s"
    using special_chars_distinct
    by (simp add: escapeAppleScriptString_def escape_char_def replace_all_char_Cons
        replace_all_char_append replace_all_char_Nil)
  with Cons show ?case by simp
qed

lemma unescape_escape_char: "unescape (escape_char c @ rest) = c # unescape rest"
proof (cases rest)
  case Nil
  then show ?thesis using special_chars_distinct by (simp add: escape_char_def)
next
  case (Cons b bs)
  then show ?thesis using special_chars_distinct by (simp add: escape_char_def)
qed

text \<open>
  Claim C1. \<open>escapeAppleScriptString\<close> escapes backslash, double quote, newline, carriage
  return and tab, in that order, the backslash first: it is the five passes in that order, it
  turns each of the five characters into a backslash followed by the backslash, the quote or
  the letter n, r or t, and it keeps every other character. (Were the quote escaped before the
  backslash, the backslash of the escaped quote would be doubled.) For every string \<open>s\<close>,
  unescaping the result gives \<open>s\<close> back.
\<close>

theorem unescape_escapeAppleScriptString:
  "escapeAppleScriptString s =
     replace_all_char tab [backslash, CHR ''t'']
       (replace_all_char creturn [backslash, CHR ''r'']
         (replace_all_char newline [backslash, CHR ''n'']
           (replace_all_char dquote [backslash, dquote]
             (replace_all_char backslash [backslash, backslash] s))))
   \<and> escapeAppleScriptString s =
       concat (map (\<lambda>c. if c = backslash then [backslash, backslash]
                          else if c = dquote then [backslash, dquote]
                          else if c = newline then [backslash, CHR ''n'']
                          else if c = creturn then [backslash, CHR ''r'']
                          else if c = tab then [backslash, CHR ''t'']
                          else [c]) s)
   \<and> escapeAppleScriptString [backslash] = [backslash, backslash]
   \<and> escapeAppleScriptString [dquote] = [backslash, dquote]
   \<and> escapeAppleScriptString [newline] = [backslash, CHR ''n'']
   \<and> escapeAppleScriptString [creturn] = [backslash, CHR ''r'']
   \<and> escapeAppleScriptString [tab] = [backslash, CHR ''t'']
   \<and> escapeAppleScriptString (s @ t) = escapeAppleScriptString s @ escapeAppleScriptString t
   \<and> replace_all_char backslash [backslash, backslash]
         (replace_all_char dquote [backslash, dquote] [dquote]) = [backslash, backslash, dquote]
   \<and> unescape (escapeAppleScriptString s) = s"
proof -
  have passes: "escapeAppleScriptString s =
     replace_all_char tab [backslash, CHR ''t'']
       (replace_all_char creturn [backslash, CHR ''r'']
         (replace_all_char newline [backslash, CHR ''n'']
           (replace_all_char dquote [backslash, dquote]
             (replace_all_char backslash [backslash, backslash] s))))"
    by (simp add: escapeAppleScriptString_def)
  have escape_char_fun: "escape_char = (\<lambda>c. if c = backslash then [backslash, backslash]
                          else if c = dquote then [backslash, dquote]
                          else if c = newline then [backslash, CHR ''n'']
                          else if c = creturn then [backslash, CHR ''r'']
                          else if c = tab then [backslash, CHR ''t'']
                          else [c])"
    by (rule ext) (simp add: escape_char_def)
  have each: "escapeAppleScriptString s =
       concat (map (\<lambda>c. if c = backslash then [backslash, backslash]
                          else if c = dquote then [backslash, dquote]
                          else if c = newline then [backslash, CHR ''n'']
                          else if c = creturn then [backslash, CHR ''r'']
                          else if c = tab then [backslash, CHR ''t'']
                          else [c]) s)"
    using escapeAppleScriptString_concat [of s] unfolding escape_char_fun .
  have single: "escapeAppleScriptString [backslash] = [backslash, backslash]"
    "escapeAppleScriptString [dquote] = [backslash, dquote]"
    "escapeAppleScriptString [newline] = [backslash, CHR ''n'']"
    "escapeAppleScriptString [creturn] = [backslash, CHR ''r'']"
    "escapeAppleScriptString [tab] = [backslash, CHR ''t'']"
    using special_chars_distinct
    by (simp_all add: escapeAppleScriptString_concat escape_char_def)
  have app: "escapeAppleScriptString (s @ t) = escapeAppleScriptString s @ escapeAppleScriptString t"
    by (simp add: escapeAppleScriptString_concat)
  have wrong_order: "replace_all_char backslash [backslash, backslash]
         (replace_all_char dquote [backslash, dquote] [dquote]) = [backslash, backslash, dquote]"
    using special_chars_distinct by (simp add: replace_all_char_def)
  have round_trip: "unescape (escapeAppleScriptString s) = s"
    unfolding escapeAppleScriptString_concat
    by (induction s) (simp_all add: unescape_escape_char)
  from passes each single app wrong_order round_trip show ?thesis by blast
qed

section \<open>The rate limiter\<close>

lemma check_new_key:
  "limits rl key = None \<Longrightarrow>
     check now key rl =
       (True, rl\<lparr>limits := (limits rl)(key \<mapsto> \<lparr>count = 1, resetAt = now + windowMs rl\<rparr>)\<rparr>)"
  by (simp add: check_def)

lemma check_expired:
  "limits rl key = Some e \<Longrightarrow> resetAt e \<le> now \<Longrightarrow>
     check now key rl =
       (True, rl\<lparr>limits := (limits rl)(key \<mapsto> \<lparr>count = 1, resetAt = now + windowMs rl\<rparr>)\<rparr>)"
  by (simp add: check_def)

lemma check_exhausted:
  "limits rl key = Some e \<Longrightarrow> now < resetAt e \<Longrightarrow> maxRequests rl \<le> count e \<Longrightarrow>
     check now key rl = (False, rl)"
  by (simp add: check_def)

lemma check_counted:
  "limits rl key = Some e \<Longrightarrow> now < resetAt e \<Longrightarrow> count e < maxRequests rl \<Longrightarrow>
     check now key rl = (True, rl\<lparr>limits := (limits rl)(key \<mapsto> e\<lparr>count := count e + 1\<rparr>)\<rparr>)"
  by (simp add: check_def)

text \<open>Calls inside the window of an entry that has room for all of them are all allowed.\<close>

lemma check_calls_in_window:
  "limits rl key = Some e \<Longrightarrow> \<forall>t\<in>set ts. t < resetAt e \<Longrightarrow>
   count e + int (length ts) \<le> maxRequests rl \<Longrightarrow>
     check_calls rl key ts =
       (replicate (length ts) True,
        rl\<lparr>limits := (limits rl)(key \<mapsto> e\<lparr>count := count e + int (length ts)\<rparr>)\<rparr>)"
proof (induction ts arbitrary: rl e)
  case Nil
  then have "(limits rl)(key \<mapsto> e) = limits rl" by (simp add: map_upd_triv)
  then show ?case by simp
next
  case (Cons t ts)
  let ?e = "e\<lparr>count := count e + 1\<rparr>"
  let ?rl = "rl\<lparr>limits := (limits rl)(key \<mapsto> ?e)\<rparr>"
  from Cons.prems have step: "check t key rl = (True, ?rl)"
    by (intro check_counted) simp_all
  have "check_calls ?rl key ts =
       (replicate (length ts) True,
        ?rl\<lparr>limits := (limits ?rl)(key \<mapsto> ?e\<lparr>count := count ?e + int (length ts)\<rparr>)\<rparr>)"
    using Cons.prems by (intro Cons.IH) simp_all
  moreover have "?rl\<lparr>limits := (limits ?rl)(key \<mapsto> ?e\<lparr>count := count ?e + int (length ts)\<rparr>)\<rparr>
      = rl\<lparr>limits := (limits rl)(key \<mapsto> e\<lparr>count := count e + int (length (t # ts))\<rparr>)\<rparr>"
    by (simp add: add.assoc)
  ultimately have rest: "check_calls ?rl key ts =
       (replicate (length ts) True,
        rl\<lparr>limits := (limits rl)(key \<mapsto> e\<lparr>count := count e + int (length (t # ts))\<rparr>)\<rparr>)"
    by (rule trans [OF _ arg_cong])
  show ?case
    by (simp only: check_calls.simps step Let_def prod.case rest length_Cons replicate_Suc)
qed

text \<open>
  Claim C3. Take a limiter and a key without entry, a first call at time \<open>t0\<close> and further
  calls at times \<open>ts\<close> inside the window that the first call opens, \<open>maxRequests\<close> calls in
  all. Every one of them returns true. A further call inside the window returns false and leaves
  the limiter, so the stored count and reset time, as it is. A call at or after the reset time
  of a stored entry returns true and stores the count 1 and the reset time \<open>now + windowMs\<close>;
  the window is 60000 ms in every limiter of the module.
\<close>

theorem RateLimiter_check_window:
  assumes "limits rl key = None"
    and "int (length ts) + 1 = maxRequests rl"
    and "\<forall>t\<in>set ts. t < t0 + windowMs rl"
  shows "fst (check_calls rl key (t0 # ts)) = replicate (nat (maxRequests rl)) True
    \<and> limits (snd (check_calls rl key (t0 # ts))) key =
        Some \<lparr>count = maxRequests rl, resetAt = t0 + windowMs rl\<rparr>
    \<and> (\<forall>t. t < t0 + windowMs rl \<longrightarrow>
          check t key (snd (check_calls rl key (t0 # ts))) =
            (False, snd (check_calls rl key (t0 # ts))))
    \<and> (\<forall>now rl' e. limits rl' key = Some e \<and> resetAt e \<le> now \<longrightarrow>
          fst (check now key rl')
          \<and> limits (snd (check now key rl')) key =
              Some \<lparr>count = 1, resetAt = now + windowMs rl'\<rparr>)
    \<and> (\<forall>l \<in> {messages initial_rateLimiters, emails initial_rateLimiters,
               search initial_rateLimiters, write initial_rateLimiters,
               global initial_rateLimiters}. windowMs l = 60000 \<and> 1 \<le> maxRequests l)"
proof -
  let ?e = "\<lparr>count = 1, resetAt = t0 + windowMs rl\<rparr>"
  let ?rl1 = "rl\<lparr>limits := (limits rl)(key \<mapsto> ?e)\<rparr>"
  let ?e' = "?e\<lparr>count := count ?e + int (length ts)\<rparr>"
  let ?rl2 = "?rl1\<lparr>limits := (limits ?rl1)(key \<mapsto> ?e')\<rparr>"
  have first: "check t0 key rl = (True, ?rl1)"
    using assms(1) by (rule check_new_key)
  have rest: "check_calls ?rl1 key ts = (replicate (length ts) True, ?rl2)"
    using assms(2,3) by (intro check_calls_in_window) simp_all
  have all: "check_calls rl key (t0 # ts) = (replicate (Suc (length ts)) True, ?rl2)"
    using first rest by simp
  have len: "nat (maxRequests rl) = Suc (length ts)"
    using assms(2) by linarith
  have entry: "limits ?rl2 key = Some \<lparr>count = maxRequests rl, resetAt = t0 + windowMs rl\<rparr>"
    using assms(2) by simp
  have A: "fst (check_calls rl key (t0 # ts)) = replicate (nat (maxRequests rl)) True"
    using all len by simp
  have B: "limits (snd (check_calls rl key (t0 # ts))) key =
        Some \<lparr>count = maxRequests rl, resetAt = t0 + windowMs rl\<rparr>"
    using all entry by simp
  have C: "check t key (snd (check_calls rl key (t0 # ts))) =
            (False, snd (check_calls rl key (t0 # ts)))" if "t < t0 + windowMs rl" for t
  proof -
    have "check t key ?rl2 = (False, ?rl2)"
      using that assms(2) by (intro check_exhausted [OF entry]) simp_all
    then show ?thesis using all by simp
  qed
  have D: "fst (check now key rl')
          \<and> limits (snd (check now key rl')) key =
              Some \<lparr>count = 1, resetAt = now + windowMs rl'\<rparr>"
    if "limits rl' key = Some e \<and> resetAt e \<le> now" for now rl' e
    using that by (simp add: check_expired)
  have E: "\<forall>l \<in> {messages initial_rateLimiters, emails initial_rateLimiters,
               search initial_rateLimiters, write initial_rateLimiters,
               global initial_rateLimiters}. windowMs l = 60000 \<and> 1 \<le> maxRequests l"
    by (simp add: initial_rateLimiters_def new_RateLimiter_def)
  from A B C D E show ?thesis by blast
qed

theorem RateLimiter_check_window_witness:
  "fst (check_calls (write initial_rateLimiters) ''global'' [1000, 1001, 1500, 30000, 60999])
     = [True, True, True, True, True]
   \<and> limits (snd (check_calls (write initial_rateLimiters) ''global''
        [1000, 1001, 1500, 30000, 60999])) ''global'' = Some \<lparr>count = 5, resetAt = 61000\<rparr>
   \<and> fst (check 60999 ''global'' (snd (check_calls (write initial_rateLimiters) ''global''
        [1000, 1001, 1500, 30000, 60999]))) = False
   \<and> fst (check 61000 ''global'' (snd (check_calls (write initial_rateLimiters) ''global''
        [1000, 1001, 1500, 30000, 60999]))) = True
   \<and> limits (snd (check 61000 ''global'' (snd (check_calls (write initial_rateLimiters) ''global''
        [1000, 1001, 1500, 30000, 60999])))) ''global'' = Some \<lparr>count = 1, resetAt = 121000\<rparr>"
proof -
  let ?rl = "write initial_rateLimiters"
  let ?ts = "[1001, 1500, 30000, 60999] :: int list"
  have h1: "limits ?rl ''global'' = None"
    by (simp add: initial_rateLimiters_def new_RateLimiter_def)
  have h2: "int (length ?ts) + 1 = maxRequests ?rl"
    by (simp add: initial_rateLimiters_def new_RateLimiter_def)
  have h3: "\<forall>t\<in>set ?ts. t < 1000 + windowMs ?rl"
    by (simp add: initial_rateLimiters_def new_RateLimiter_def)
  have w: "windowMs ?rl = 60000" "maxRequests ?rl = 5"
    by (simp_all add: initial_rateLimiters_def new_RateLimiter_def)
  note th = RateLimiter_check_window [OF h1 h2 h3]
  let ?after = "snd (check_calls ?rl ''global'' (1000 # ?ts))"
  have wa: "windowMs ?after = 60000"
    by (simp add: initial_rateLimiters_def new_RateLimiter_def check_def Let_def)
  from th have a: "fst (check_calls ?rl ''global'' (1000 # ?ts)) = replicate (nat 5) True"
    unfolding w by blast
  from th have b: "limits ?after ''global'' = Some \<lparr>count = 5, resetAt = 61000\<rparr>"
    unfolding w by simp
  from th have "60999 < 1000 + windowMs ?rl \<longrightarrow> check 60999 ''global'' ?after = (False, ?after)"
    by blast
  then have c: "fst (check 60999 ''global'' ?after) = False"
    unfolding w by simp
  from th have "limits ?after ''global'' = Some \<lparr>count = 5, resetAt = 61000\<rparr>
      \<and> resetAt \<lparr>count = 5, resetAt = 61000\<rparr> \<le> 61000 \<longrightarrow>
      fst (check 61000 ''global'' ?after)
      \<and> limits (snd (check 61000 ''global'' ?after)) ''global'' =
          Some \<lparr>count = 1, resetAt = 61000 + windowMs ?after\<rparr>"
    by blast
  with b wa have d: "fst (check 61000 ''global'' ?after) = True"
    "limits (snd (check 61000 ''global'' ?after)) ''global'' = Some \<lparr>count = 1, resetAt = 121000\<rparr>"
    by simp_all
  have r: "replicate (nat 5) True = [True, True, True, True, True]"
    by (simp add: numeral_eq_Suc)
  from a b c d r show ?thesis by simp
qed

section \<open>The limit helper\<close>

text \<open>
  Claim C9. For every limit and maximum, \<open>sanitizeLimit\<close> returns 10 when the floor of the
  limit is NaN or below 1, and otherwise the minimum of the floored limit and the maximum
  (default 100); both copies of the function agree. In particular
  \<open>sanitizeLimit(-5,100) = 10\<close>, \<open>sanitizeLimit(0,100) = 10\<close>, \<open>sanitizeLimit(37,100) = 37\<close>,
  \<open>sanitizeLimit(500,100) = 100\<close>, and a NaN input gives 10.
\<close>

theorem sanitizeLimit_spec:
  "sanitizeLimit limit (Some mx) =
     (if isNaN (Math_floor limit) \<or> number_less (Math_floor limit) (Finite 1) then Finite 10
      else Math_min (Math_floor limit) mx)
   \<and> sanitizeLimit limit None = sanitizeLimit limit (Some (Finite 100))
   \<and> database_sanitizeLimit limit mo = sanitizeLimit limit mo
   \<and> sanitizeLimit NaN mo = Finite 10
   \<and> sanitizeLimit NegInfinity mo = Finite 10
   \<and> sanitizeLimit (Finite x) (Some (Finite m)) =
       (if \<lfloor>x\<rfloor> < 1 then Finite 10 else Finite (min (of_int \<lfloor>x\<rfloor>) m))
   \<and> sanitizeLimit PosInfinity (Some (Finite m)) = Finite m
   \<and> sanitizeLimit (Finite (- 5)) (Some (Finite 100)) = Finite 10
   \<and> sanitizeLimit (Finite 0) (Some (Finite 100)) = Finite 10
   \<and> sanitizeLimit (Finite 37) (Some (Finite 100)) = Finite 37
   \<and> sanitizeLimit (Finite 500) (Some (Finite 100)) = Finite 100
   \<and> sanitizeLimit (Finite (75 / 2)) (Some (Finite 100)) = Finite 37"
proof -
  have floor_lt: "(of_int \<lfloor>y\<rfloor> :: rat) < 1 \<longleftrightarrow> \<lfloor>y\<rfloor> < 1" for y :: rat
    by (metis of_int_1 of_int_less_iff)
  have fin: "sanitizeLimit (Finite x) (Some (Finite m)) =
       (if \<lfloor>x\<rfloor> < 1 then Finite 10 else Finite (min (of_int \<lfloor>x\<rfloor>) m))" for x m
    using floor_lt [of x] by (auto simp add: sanitizeLimit_def isNaN_def Math_min_def min_def)
  have ex: "sanitizeLimit (Finite (- 5)) (Some (Finite 100)) = Finite 10"
    "sanitizeLimit (Finite 0) (Some (Finite 100)) = Finite 10"
    "sanitizeLimit (Finite 37) (Some (Finite 100)) = Finite 37"
    "sanitizeLimit (Finite 500) (Some (Finite 100)) = Finite 100"
    "sanitizeLimit (Finite (75 / 2)) (Some (Finite 100)) = Finite 37"
    unfolding fin by (simp_all add: floor_unique [where z = 37])
  have gen: "sanitizeLimit limit (Some mx) =
     (if isNaN (Math_floor limit) \<or> number_less (Math_floor limit) (Finite 1) then Finite 10
      else Math_min (Math_floor limit) mx)"
    by (simp add: sanitizeLimit_def)
  have dflt: "sanitizeLimit limit None = sanitizeLimit limit (Some (Finite 100))"
    by (simp add: sanitizeLimit_def)
  have db: "database_sanitizeLimit limit mo = sanitizeLimit limit mo"
    by (simp add: sanitizeLimit_def database_sanitizeLimit_def)
  have nan: "sanitizeLimit NaN mo = Finite 10" "sanitizeLimit NegInfinity mo = Finite 10"
    by (simp_all add: sanitizeLimit_def isNaN_def)
  have inf: "sanitizeLimit PosInfinity (Some (Finite m)) = Finite m"
    by (simp add: sanitizeLimit_def isNaN_def Math_min_def)
  from gen dflt db nan fin inf ex show ?thesis by blast
qed

section \<open>Authentication\<close>

text \<open>
  Claim C4, as the code has it. When no token is configured, or the configured token is the
  empty string, \<open>checkAuthentication\<close> returns true for every presented token, the empty
  and the undefined one included. When a non-empty token is configured it returns true exactly
  for the presented token that is equal to it, and so false for a proper prefix of it and for
  every other string, a case variant included.
\<close>

theorem checkAuthentication_spec:
  "(authToken cfg = None \<or> authToken cfg = Some [] \<longrightarrow> checkAuthentication cfg t)
   \<and> (\<forall>a. authToken cfg = Some a \<and> a \<noteq> [] \<longrightarrow>
         (checkAuthentication cfg t \<longleftrightarrow> t = Some a)
         \<and> \<not> checkAuthentication cfg None
         \<and> (\<forall>n < length a. \<not> checkAuthentication cfg (Some (take n a)))
         \<and> (\<forall>b. b \<noteq> a \<longrightarrow> \<not> checkAuthentication cfg (Some b)))"
  by (auto simp add: checkAuthentication_def falsy_def)

theorem checkAuthentication_spec_witness:
  "checkAuthentication \<lparr>enableRateLimiting = True, enableAuditLogging = True,
       authToken = Some ''s3cret'', maxMessageLength = Finite 10000,
       maxSearchResults = Finite 100\<rparr> (Some ''s3cret'')
   \<and> \<not> checkAuthentication \<lparr>enableRateLimiting = True, enableAuditLogging = True,
       authToken = Some ''s3cret'', maxMessageLength = Finite 10000,
       maxSearchResults = Finite 100\<rparr> (Some ''S3CRET'')
   \<and> \<not> checkAuthentication \<lparr>enableRateLimiting = True, enableAuditLogging = True,
       authToken = Some ''s3cret'', maxMessageLength = Finite 10000,
       maxSearchResults = Finite 100\<rparr> (Some ''s3c'')
   \<and> checkAuthentication \<lparr>enableRateLimiting = True, enableAuditLogging = True,
       authToken = None, maxMessageLength = Finite 10000,
       maxSearchResults = Finite 100\<rparr> None"
  using checkAuthentication_spec [of "\<lparr>enableRateLimiting = True, enableAuditLogging = True,
       authToken = Some ''s3cret'', maxMessageLength = Finite 10000,
       maxSearchResults = Finite 100\<rparr>" "Some ''s3cret''"]
    checkAuthentication_spec [of "\<lparr>enableRateLimiting = True, enableAuditLogging = True,
       authToken = None, maxMessageLength = Finite 10000,
       maxSearchResults = Finite 100\<rparr>" None]
  by simp

text \<open>
  The claim as the specification words it fails for a configured token that is the empty
  string: every presented token is then accepted, not only the one equal to it.
\<close>

theorem checkAuthentication_empty_token_counterexample:
  "\<not> (checkAuthentication \<lparr>enableRateLimiting = True, enableAuditLogging = True,
          authToken = Some '''', maxMessageLength = Finite 10000,
          maxSearchResults = Finite 100\<rparr> (Some ''guess'')
        \<longleftrightarrow> Some ''guess'' = Some '''')"
  by (simp add: checkAuthentication_def falsy_def)

text \<open>
  Claim C10. When the environment variable MCP_AUTH_TOKEN is set to the empty string,
  \<open>checkAuthentication\<close> returns true for every presented token, as it does when the variable
  is not set.
\<close>

theorem checkAuthentication_empty_env_token:
  "env ''MCP_AUTH_TOKEN'' = Some [] \<Longrightarrow>
     checkAuthentication (securityConfig_of_env env) t
     \<and> checkAuthentication (securityConfig_of_env env) t =
       checkAuthentication (securityConfig_of_env (env(''MCP_AUTH_TOKEN'' := None))) t"
  by (simp add: checkAuthentication_def falsy_def securityConfig_of_env_def)

theorem checkAuthentication_empty_env_token_witness:
  "checkAuthentication (securityConfig_of_env [''MCP_AUTH_TOKEN'' \<mapsto> '''']) (Some ''anything'')
   \<and> checkAuthentication (securityConfig_of_env [''MCP_AUTH_TOKEN'' \<mapsto> '''']) None"
  using checkAuthentication_empty_env_token [of "[''MCP_AUTH_TOKEN'' \<mapsto> '''']" "Some ''anything''"]
    checkAuthentication_empty_env_token [of "[''MCP_AUTH_TOKEN'' \<mapsto> '''']" None]
  by simp

section \<open>The search query validator\<close>

lemma searchQuerySchema_parse_eq:
  "searchQuerySchema_parse q =
     (if length q < 1 then
        Inl (ZodError (''Search query cannot be empty'' #
               (if 500 < length q then [''Search query too long''] else [])))
      else if 500 < length q then Inl (ZodError [''Search query too long''])
      else Inr (trim q))"
  by (simp add: searchQuerySchema_parse_def zod_issues_def)

lemma trim_padded_right:
  assumes "\<not> is_space c"
  shows "trim (c # replicate n (CHR '' '')) = [c]"
proof -
  have sp: "is_space (CHR '' '')" by (simp add: is_space_def)
  have "dropWhile is_space (replicate n (CHR '' '') @ [c]) = dropWhile is_space [c]"
    using sp by (intro dropWhile_append2) simp
  with assms show ?thesis by (simp add: trim_def)
qed

text \<open>
  Claim C6, as the code has it. \<open>validateSearchQuery\<close> first enforces a length from 1 to
  500 on the input as given, then trims it, then rejects the trimmed text when it matches a
  dangerous pattern, and otherwise returns the trimmed text. Every rejection is a
  ValidationError for the field searchQuery.
\<close>

theorem validateSearchQuery_spec:
  "validateSearchQuery q =
     (if length q < 1 \<or> 500 < length q
      then Inl (ValidationError ''Invalid search query'' (Some ''searchQuery''))
      else if containsDangerousPattern (trim q)
      then Inl (ValidationError ''Search query contains forbidden patterns'' (Some ''searchQuery''))
      else Inr (trim q))"
  by (simp add: validateSearchQuery_def searchQuerySchema_parse_eq)

text \<open>
  The claim as the specification words it, with the maximum enforced on the trimmed text,
  fails on a query of one letter followed by 500 spaces: its trimmed text has length 1 and
  matches no dangerous pattern, and the query is rejected all the same.
\<close>

theorem validateSearchQuery_trim_first_counterexample:
  "length (trim (CHR ''a'' # replicate 500 (CHR '' ''))) \<le> 500
   \<and> \<not> containsDangerousPattern (trim (CHR ''a'' # replicate 500 (CHR '' '')))
   \<and> validateSearchQuery (CHR ''a'' # replicate 500 (CHR '' '')) \<noteq>
       Inr (trim (CHR ''a'' # replicate 500 (CHR '' '')))
   \<and> validateSearchQuery (CHR ''a'' # replicate 500 (CHR '' '')) =
       Inl (ValidationError ''Invalid search query'' (Some ''searchQuery''))"
proof -
  have t: "trim (CHR ''a'' # replicate 500 (CHR '' '')) = ''a''"
    by (rule trim_padded_right) (simp add: is_space_def)
  have d: "\<not> containsDangerousPattern ''a''"
    by code_simp
  have v: "validateSearchQuery (CHR ''a'' # replicate 500 (CHR '' '')) =
       Inl (ValidationError ''Invalid search query'' (Some ''searchQuery''))"
    by (simp add: validateSearchQuery_def searchQuerySchema_parse_eq)
  from t d v show ?thesis by simp
qed

lemma validateSearchQuery_examples:
  "validateSearchQuery ''  mail from bob  '' = Inr ''mail from bob''"
  "validateSearchQuery ''please EVAL  this'' =
     Inl (ValidationError ''Search query contains forbidden patterns'' (Some ''searchQuery''))"
  "validateSearchQuery ''Delete   from x'' =
     Inl (ValidationError ''Search query contains forbidden patterns'' (Some ''searchQuery''))"
  "validateSearchQuery '''' = Inl (ValidationError ''Invalid search query'' (Some ''searchQuery''))"
  "validateSearchQuery ''   '' = Inr ''''"
  by code_simp+

section \<open>Query parameters\<close>

text \<open>
  When the literal of no parameter contains a question mark or a dollar sign, the loop gives
  the placeholders of the template the parameters in their order.
\<close>

lemma getSubstitution_no_dollar:
  "CHR ''$'' \<notin> set r \<Longrightarrow> getSubstitution m p q r = r"
  by (induction m p q r rule: getSubstitution.induct) auto

lemma replace_first_absent: "c \<notin> set s \<Longrightarrow> replace_first c r s = s"
proof -
  assume "c \<notin> set s"
  then have d: "dropWhile (\<lambda>x. x \<noteq> c) s = []" by auto
  show ?thesis unfolding replace_first_def d by simp
qed

lemma replace_first_at:
  assumes "c \<notin> set front" and "CHR ''$'' \<notin> set r"
  shows "replace_first c r (front @ c # rest) = front @ r @ rest"
proof -
  have t: "takeWhile (\<lambda>x. x \<noteq> c) (front @ c # rest) = front"
    using assms(1) by (induction front) auto
  have d: "dropWhile (\<lambda>x. x \<noteq> c) (front @ c # rest) = c # rest"
    using assms(1) by (induction front) auto
  show ?thesis
    unfolding replace_first_def t d using assms(2) by (simp add: getSubstitution_no_dollar)
qed

lemma substitute_in_order_Nil: "substitute_in_order s [] = s"
  by (induction s) simp_all

lemma substitute_in_order_absent:
  "CHR ''?'' \<notin> set s \<Longrightarrow> substitute_in_order s vs = s"
  by (induction s vs rule: substitute_in_order.induct) auto

lemma substitute_in_order_at:
  "CHR ''?'' \<notin> set front \<Longrightarrow>
     substitute_in_order (front @ CHR ''?'' # rest) (v # vs) = front @ v @ substitute_in_order rest vs"
  by (induction front) auto

lemma parameterizedQuery_behind:
  assumes "\<forall>p\<in>set ps. CHR ''?'' \<notin> set (escaped_param p) \<and> CHR ''$'' \<notin> set (escaped_param p)"
    and "CHR ''?'' \<notin> set front"
  shows "parameterizedQuery (front @ rest) ps
           = front @ substitute_in_order rest (map escaped_param ps)"
  using assms
proof (induction ps arbitrary: front rest)
  case Nil
  then show ?case by (simp add: substitute_in_order_Nil)
next
  case (Cons p ps)
  let ?v = "escaped_param p"
  from Cons.prems have v: "CHR ''?'' \<notin> set ?v" "CHR ''$'' \<notin> set ?v"
    and ps: "\<forall>p\<in>set ps. CHR ''?'' \<notin> set (escaped_param p) \<and> CHR ''$'' \<notin> set (escaped_param p)"
    by simp_all
  show ?case
  proof (cases "CHR ''?'' \<in> set rest")
    case False
    with Cons.prems(2) have absent: "CHR ''?'' \<notin> set (front @ rest)" by simp
    have "parameterizedQuery (front @ rest) (p # ps) = parameterizedQuery ((front @ rest) @ []) ps"
      using absent by (simp add: replace_first_absent)
    also have "\<dots> = (front @ rest) @ substitute_in_order [] (map escaped_param ps)"
      using ps absent by (rule Cons.IH)
    finally show ?thesis using False by (simp add: substitute_in_order_absent)
  next
    case True
    then obtain r1 r2 where rest: "rest = r1 @ CHR ''?'' # r2" and r1: "CHR ''?'' \<notin> set r1"
      by (auto dest: split_list_first)
    have front': "CHR ''?'' \<notin> set (front @ r1 @ ?v)"
      using Cons.prems(2) r1 v by simp
    have "replace_first (CHR ''?'') ?v (front @ rest) = (front @ r1 @ ?v) @ r2"
      using replace_first_at [of "CHR ''?''" "front @ r1" ?v r2] Cons.prems(2) r1 v rest by simp
    then have "parameterizedQuery (front @ rest) (p # ps)
        = parameterizedQuery ((front @ r1 @ ?v) @ r2) ps"
      by simp
    also have "\<dots> = (front @ r1 @ ?v) @ substitute_in_order r2 (map escaped_param ps)"
      using ps front' by (rule Cons.IH)
    finally show ?thesis using rest r1 by (simp add: substitute_in_order_at)
  qed
qed

lemma parameterizedQuery_in_order:
  assumes "\<forall>p\<in>set ps. CHR ''?'' \<notin> set (escaped_param p) \<and> CHR ''$'' \<notin> set (escaped_param p)"
  shows "parameterizedQuery query ps = substitute_in_order query (map escaped_param ps)"
  using parameterizedQuery_behind [OF assms, of "[]" query] by simp

text \<open>
  Claim C2 says that the i-th placeholder of the template receives the i-th parameter. The loop
  replaces the first question mark of the text built so far, so a question mark inside a string
  parameter already inserted takes the next parameter: with the template
  \<open>a = ? AND b = ?\<close> and the parameters \<open>x?\<close> and 7, the 7 lands inside the first literal and
  the second placeholder stays, where the substitution in order gives \<open>a = 'x?' AND b = 7\<close>.
\<close>

theorem parameterizedQuery_question_mark_in_parameter:
  "parameterizedQuery ''a = ? AND b = ?'' [PString ''x?'', PNumber 7] = ''a = 'x7' AND b = ?''
   \<and> substitute_in_order ''a = ? AND b = ?'' (map escaped_param [PString ''x?'', PNumber 7])
       = ''a = 'x?' AND b = 7''
   \<and> parameterizedQuery ''a = ? AND b = ?'' [PString ''x?'', PNumber 7] \<noteq>
       substitute_in_order ''a = ? AND b = ?'' (map escaped_param [PString ''x?'', PNumber 7])"
  by (simp add: replace_first_def escaped_param_def replace_all_char_def squote_def
      String_of_int_def digit_char_def)

section \<open>The example worlds\<close>

lemma failing_send_world_calls:
  "Date_now failing_send_world w = 1000"
  "isEmail failing_send_world a = (CHR ''@'' \<in> set a)"
  "call_script failing_send_world MailProcessExists s =
     (Inr ''true'', s\<lparr>invocations := invocations s @ [RunAppleScript MailProcessExists]\<rparr>)"
  "call_script failing_send_world CountMailboxes s =
     (Inr ''3'', s\<lparr>invocations := invocations s @ [RunAppleScript CountMailboxes]\<rparr>)"
  "call_script failing_send_world EnsureMailRunning s =
     (Inr '''', s\<lparr>invocations := invocations s @ [RunAppleScript EnsureMailRunning]\<rparr>)"
  "call_script failing_send_world (ScriptText t) s =
     (Inl (Error ''script failed''),
      s\<lparr>invocations := invocations s @ [RunAppleScript (ScriptText t)]\<rparr>)"
  "call_run_send failing_send_world to subj body cc bcc s =
     (Inr ''JXA error: Error: Mail got an error'',
      s\<lparr>invocations := invocations s @ [RunSend to subj body cc bcc]\<rparr>)"
  by (simp_all add: call_script_def call_run_send_def failing_send_world_def)

lemma checkMailAccess_failing_send_world_any:
  "checkMailAccess failing_send_world s =
     (Inr True, s\<lparr>invocations := invocations s @
        [RunAppleScript MailProcessExists, RunAppleScript CountMailboxes]\<rparr>)"
  by (simp add: checkMailAccess_def failing_send_world_calls)

lemma default_config_flags:
  "enableAuditLogging default_config" "enableRateLimiting default_config"
  by (simp_all add: default_config_def securityConfig_of_env_def)

section \<open>Unread mail: the raw output as a last resort\<close>

lemma unread_from_output_raw:
  assumes "\<forall>mails. unread_json_step parse now asResult \<noteq> Returned mails"
    and "scan_records now asResult = []"
    and "str_includes asResult ''subject''" and "str_includes asResult ''sender''"
  shows "unread_from_output parse now asResult = Some [raw_output_record now asResult]"
proof -
  have "\<forall>mails. unread_parse_block parse now asResult \<noteq> Returned mails"
    using assms(1,2) by (cases "unread_json_step parse now asResult")
      (simp_all add: unread_parse_block_def)
  then show ?thesis
    using assms(3,4) by (simp add: unread_from_output_def split: block_end.splits)
qed

text \<open>
  Claim C5, as the code has it. Let Mail be accessible and let the first script of
  \<open>getUnreadMails\<close> return a text that the JSON statement does not turn into a result
  (rule a), in which the record scan accepts no group in braces (rule b), and which contains
  both \<open>subject\<close> and \<open>sender\<close>, the two field names that the function looks for. Then
  the function returns a list of exactly one record, in the mailbox \<open>Debug\<close> and with the
  subject \<open>Raw AppleScript Output\<close>, whose content is a fixed prefix followed by the text as
  it came; no further outside call is made.
\<close>

theorem getUnreadMails_raw_output:
  assumes "checkMailAccess ext s = (Inr True, s1)"
    and "call_script ext (UnreadMessages (case limit_arg of None \<Rightarrow> Finite 10 | Some l \<Rightarrow> l)) s1
           = (Inr asResult, s2)"
    and "\<forall>mails. unread_json_step (JSON_parse ext) (Date_string ext (world s2)) asResult
           \<noteq> Returned mails"
    and "scan_records (Date_string ext (world s2)) asResult = []"
    and "str_includes asResult ''subject''" and "str_includes asResult ''sender''"
  shows "getUnreadMails ext s limit_arg =
           (Inr [\<lparr>subject = JStr ''Raw AppleScript Output'',
                   sender = JStr ''Mail System'',
                   dateSent = JStr (Date_string ext (world s2)),
                   content = JStr (''Could not parse Mail data properly. Raw output: ''
                                     @ asResult),
                   isRead = JBool False,
                   mailbox = JStr ''Debug''\<rparr>], s2)"
proof -
  have "unread_from_output (JSON_parse ext) (Date_string ext (world s2)) asResult =
      Some [raw_output_record (Date_string ext (world s2)) asResult]"
    using assms(3-6) by (rule unread_from_output_raw)
  then show ?thesis
    using assms(1,2) by (simp add: getUnreadMails_def raw_output_record_def)
qed

lemma checkMailAccess_failing_send_world:
  "checkMailAccess failing_send_world (initial_system ()) =
     (Inr True, (initial_system ())\<lparr>invocations :=
        [RunAppleScript MailProcessExists, RunAppleScript CountMailboxes]\<rparr>)"
  by (simp add: checkMailAccess_failing_send_world_any initial_system_def)

theorem getUnreadMails_raw_output_witness:
  "getUnreadMails failing_send_world (initial_system ()) None =
     (Inr [\<lparr>subject = JStr ''Raw AppleScript Output'',
             sender = JStr ''Mail System'',
             dateSent = JStr ''Mon Nov 02 2026'',
             content = JStr (''Could not parse Mail data properly. Raw output: ''
                               @ ''items {id:7, box:INBOX} subject, sender''),
             isRead = JBool False,
             mailbox = JStr ''Debug''\<rparr>],
      (initial_system ())\<lparr>invocations :=
        [RunAppleScript MailProcessExists, RunAppleScript CountMailboxes,
         RunAppleScript (UnreadMessages (Finite 10))]\<rparr>)"
proof -
  let ?s1 = "(initial_system ())\<lparr>invocations :=
        [RunAppleScript MailProcessExists, RunAppleScript CountMailboxes]\<rparr>"
  let ?s2 = "(initial_system ())\<lparr>invocations :=
        [RunAppleScript MailProcessExists, RunAppleScript CountMailboxes,
         RunAppleScript (UnreadMessages (Finite 10))]\<rparr>"
  let ?raw = "''items {id:7, box:INBOX} subject, sender''"
  have h2: "call_script failing_send_world
      (UnreadMessages (case None of None \<Rightarrow> Finite 10 | Some l \<Rightarrow> l)) ?s1 = (Inr ?raw, ?s2)"
    by (simp add: call_script_def failing_send_world_def initial_system_def)
  have h3: "\<forall>mails. unread_json_step (JSON_parse failing_send_world)
      (Date_string failing_send_world (world ?s2)) ?raw \<noteq> Returned mails"
    by (simp add: unread_json_step_def startsWith_def)
  have h4: "scan_records (Date_string failing_send_world (world ?s2)) ?raw = []"
    by code_simp
  have h5: "str_includes ?raw ''subject''" by code_simp
  have h6: "str_includes ?raw ''sender''" by code_simp
  have d: "Date_string failing_send_world (world ?s2) = ''Mon Nov 02 2026''"
    by (simp add: failing_send_world_def)
  show ?thesis
    using getUnreadMails_raw_output [OF checkMailAccess_failing_send_world h2 h3 h4 h5 h6]
    unfolding d by simp
qed

lemma no_sender_world_calls:
  "JSON_parse no_sender_world = (\<lambda>text. None)"
  "Date_string no_sender_world w = ''Mon Nov 02 2026''"
  "call_script no_sender_world MailProcessExists s =
     (Inr ''true'', s\<lparr>invocations := invocations s @ [RunAppleScript MailProcessExists]\<rparr>)"
  "call_script no_sender_world CountMailboxes s =
     (Inr '''', s\<lparr>invocations := invocations s @ [RunAppleScript CountMailboxes]\<rparr>)"
  "call_script no_sender_world (UnreadMessages l) s =
     (Inr ''subject: Hi, date: Monday, mailbox: INBOX, content: x'',
      s\<lparr>invocations := invocations s @ [RunAppleScript (UnreadMessages l)]\<rparr>)"
  "call_script no_sender_world AccountNames s =
     (Inr '''', s\<lparr>invocations := invocations s @ [RunAppleScript AccountNames]\<rparr>)"
  "call_script no_sender_world UnreadCounts s =
     (Inr '''', s\<lparr>invocations := invocations s @ [RunAppleScript UnreadCounts]\<rparr>)"
  "call_run_unread no_sender_world l s =
     (Inr [], s\<lparr>invocations := invocations s @ [RunUnread l]\<rparr>)"
  by (simp_all add: call_script_def call_run_unread_def no_sender_world_def)

lemma checkMailAccess_no_sender_world:
  "checkMailAccess no_sender_world s =
     (Inr True, s\<lparr>invocations := invocations s @
        [RunAppleScript MailProcessExists, RunAppleScript CountMailboxes]\<rparr>)"
  by (simp add: checkMailAccess_def no_sender_world_calls)

text \<open>
  The claim as the specification words it, with any two of the field names as the condition,
  fails. The text below holds four of the field names that the script writes (subject, date,
  mailbox, content) and not \<open>sender\<close>; it is not empty, the JSON statement is not attempted on
  it and the record scan finds no group. The function returns no record for it: it goes on
  to the second approach and returns what the object automation gives, here the empty list.
\<close>

theorem getUnreadMails_two_tokens_counterexample:
  "str_includes ''subject: Hi, date: Monday, mailbox: INBOX, content: x'' ''subject''
   \<and> str_includes ''subject: Hi, date: Monday, mailbox: INBOX, content: x'' ''date''
   \<and> str_includes ''subject: Hi, date: Monday, mailbox: INBOX, content: x'' ''mailbox''
   \<and> str_includes ''subject: Hi, date: Monday, mailbox: INBOX, content: x'' ''content''
   \<and> trim ''subject: Hi, date: Monday, mailbox: INBOX, content: x'' \<noteq> []
   \<and> unread_json_step (JSON_parse no_sender_world) ''Mon Nov 02 2026''
         ''subject: Hi, date: Monday, mailbox: INBOX, content: x'' = Completed
   \<and> scan_records ''Mon Nov 02 2026''
         ''subject: Hi, date: Monday, mailbox: INBOX, content: x'' = []
   \<and> call_script no_sender_world (UnreadMessages (Finite 10))
         (snd (checkMailAccess no_sender_world (initial_system ()))) =
       (Inr ''subject: Hi, date: Monday, mailbox: INBOX, content: x'',
        (initial_system ())\<lparr>invocations :=
           [RunAppleScript MailProcessExists, RunAppleScript CountMailboxes,
            RunAppleScript (UnreadMessages (Finite 10))]\<rparr>)
   \<and> getUnreadMails no_sender_world (initial_system ()) None =
       (Inr [],
        (initial_system ())\<lparr>invocations :=
           [RunAppleScript MailProcessExists, RunAppleScript CountMailboxes,
            RunAppleScript (UnreadMessages (Finite 10)), RunAppleScript AccountNames,
            RunAppleScript UnreadCounts, RunUnread (Finite 10)]\<rparr>)"
proof -
  let ?raw = "''subject: Hi, date: Monday, mailbox: INBOX, content: x''"
  have tokens: "str_includes ?raw ''subject''" "str_includes ?raw ''date''"
    "str_includes ?raw ''mailbox''" "str_includes ?raw ''content''"
    by code_simp+
  have no_sender: "\<not> str_includes ?raw ''sender''"
    by code_simp
  have nonempty: "trim ?raw \<noteq> []"
    by code_simp
  have json: "unread_json_step (JSON_parse no_sender_world) ''Mon Nov 02 2026'' ?raw = Completed"
    by (simp add: unread_json_step_def startsWith_def)
  have scan: "scan_records ''Mon Nov 02 2026'' ?raw = []"
    by code_simp
  have out: "unread_from_output (JSON_parse no_sender_world) ''Mon Nov 02 2026'' ?raw = None"
    using json scan no_sender by (simp add: unread_from_output_def unread_parse_block_def)
  then have out': "unread_from_output (\<lambda>text. None) ''Mon Nov 02 2026'' ?raw = None"
    by (simp add: no_sender_world_calls)
  have script: "call_script no_sender_world (UnreadMessages (Finite 10))
         (snd (checkMailAccess no_sender_world (initial_system ()))) =
       (Inr ?raw,
        (initial_system ())\<lparr>invocations :=
           [RunAppleScript MailProcessExists, RunAppleScript CountMailboxes,
            RunAppleScript (UnreadMessages (Finite 10))]\<rparr>)"
    by (simp add: checkMailAccess_no_sender_world no_sender_world_calls initial_system_def)
  have run: "getUnreadMails no_sender_world (initial_system ()) None =
       (Inr [],
        (initial_system ())\<lparr>invocations :=
           [RunAppleScript MailProcessExists, RunAppleScript CountMailboxes,
            RunAppleScript (UnreadMessages (Finite 10)), RunAppleScript AccountNames,
            RunAppleScript UnreadCounts, RunUnread (Finite 10)]\<rparr>)"
    unfolding getUnreadMails_def
    by (simp add: checkMailAccess_no_sender_world no_sender_world_calls out' initial_system_def
        Let_def)
  from tokens nonempty json scan script run show ?thesis by blast
qed

section \<open>Rejected input\<close>

lemma validateEmail_error: "validateEmail f a = Inl e \<Longrightarrow> is_ValidationError e"
  by (auto simp add: validateEmail_def split: sum.splits)

lemma validate_optional_email_error:
  "validate_optional_email f a = Inl e \<Longrightarrow> is_ValidationError e"
  by (auto simp add: validate_optional_email_def dest: validateEmail_error
      split: sum.splits if_splits)

lemma validateMessageContent_error: "validateMessageContent c = Inl e \<Longrightarrow> is_ValidationError e"
  by (auto simp add: validateMessageContent_def split: sum.splits if_splits)

lemma validateSearchQuery_error: "validateSearchQuery q = Inl e \<Longrightarrow> is_ValidationError e"
  by (auto simp add: validateSearchQuery_def split: sum.splits if_splits)

lemma searchMails_rejected:
  "validateSearchQuery searchTerm = Inl e \<Longrightarrow>
     searchMails ext cfg s searchTerm limit_arg =
       (Inl (Error (''Error searching mail: '' @ error_message e)), s)"
  by (simp add: searchMails_def)

lemma sendMail_rejected_to:
  "validateEmail (isEmail ext) to = Inl e \<Longrightarrow>
     sendMail ext cfg s to subj body cc bcc =
       (Inl (Error (''Error sending mail: '' @ error_message e)), s)"
  by (simp add: sendMail_def)

lemma sendMail_rejected_subject:
  "validateEmail (isEmail ext) to = Inr a \<Longrightarrow> validateMessageContent subj = Inl e \<Longrightarrow>
     sendMail ext cfg s to subj body cc bcc =
       (Inl (Error (''Error sending mail: '' @ error_message e)), s)"
  by (simp add: sendMail_def)

lemma sendMail_rejected_body:
  "validateEmail (isEmail ext) to = Inr a \<Longrightarrow> validateMessageContent subj = Inr b \<Longrightarrow>
   validateMessageContent body = Inl e \<Longrightarrow>
     sendMail ext cfg s to subj body cc bcc =
       (Inl (Error (''Error sending mail: '' @ error_message e)), s)"
  by (simp add: sendMail_def)

lemma sendMail_rejected_cc:
  "validateEmail (isEmail ext) to = Inr a \<Longrightarrow> validateMessageContent subj = Inr b \<Longrightarrow>
   validateMessageContent body = Inr c \<Longrightarrow> validate_optional_email (isEmail ext) cc = Inl e \<Longrightarrow>
     sendMail ext cfg s to subj body cc bcc =
       (Inl (Error (''Error sending mail: '' @ error_message e)), s)"
  by (simp add: sendMail_def)

lemma sendMail_rejected_bcc:
  "validateEmail (isEmail ext) to = Inr a \<Longrightarrow> validateMessageContent subj = Inr b \<Longrightarrow>
   validateMessageContent body = Inr c \<Longrightarrow> validate_optional_email (isEmail ext) cc = Inr d \<Longrightarrow>
   validate_optional_email (isEmail ext) bcc = Inl e \<Longrightarrow>
     sendMail ext cfg s to subj body cc bcc =
       (Inl (Error (''Error sending mail: '' @ error_message e)), s)"
  by (simp add: sendMail_def)

text \<open>
  Claim C7, as the code has it. When the validator of \<open>searchMails\<close> rejects the search term,
  or one of the validators of \<open>sendMail\<close> rejects its input, the operation ends at once with a
  plain Error whose message is the operation's prefix followed by the message of the
  ValidationError. The state is returned as it was: no rate limiter has been asked, no
  outside call has been made, and the audit log has no new entry.
\<close>

theorem rejected_input_stops_operation:
  "(validateSearchQuery searchTerm = Inl e \<longrightarrow>
      is_ValidationError e
      \<and> searchMails ext cfg s searchTerm limit_arg =
          (Inl (Error (''Error searching mail: '' @ error_message e)), s))
   \<and> (isl (validateEmail (isEmail ext) to) \<or> isl (validateMessageContent subj)
        \<or> isl (validateMessageContent body) \<or> isl (validate_optional_email (isEmail ext) cc)
        \<or> isl (validate_optional_email (isEmail ext) bcc) \<longrightarrow>
      (\<exists>e'. is_ValidationError e'
         \<and> (validateEmail (isEmail ext) to = Inl e' \<or> validateMessageContent subj = Inl e'
              \<or> validateMessageContent body = Inl e'
              \<or> validate_optional_email (isEmail ext) cc = Inl e'
              \<or> validate_optional_email (isEmail ext) bcc = Inl e')
         \<and> sendMail ext cfg s to subj body cc bcc =
             (Inl (Error (''Error sending mail: '' @ error_message e')), s)))"
proof (intro conjI impI)
  assume "validateSearchQuery searchTerm = Inl e"
  then show "is_ValidationError e"
    and "searchMails ext cfg s searchTerm limit_arg =
          (Inl (Error (''Error searching mail: '' @ error_message e)), s)"
    by (rule validateSearchQuery_error, rule searchMails_rejected)
next
  let ?goal = "\<lambda>e'. is_ValidationError e'
         \<and> (validateEmail (isEmail ext) to = Inl e' \<or> validateMessageContent subj = Inl e'
              \<or> validateMessageContent body = Inl e'
              \<or> validate_optional_email (isEmail ext) cc = Inl e'
              \<or> validate_optional_email (isEmail ext) bcc = Inl e')
         \<and> sendMail ext cfg s to subj body cc bcc =
             (Inl (Error (''Error sending mail: '' @ error_message e')), s)"
  assume rejected: "isl (validateEmail (isEmail ext) to) \<or> isl (validateMessageContent subj)
        \<or> isl (validateMessageContent body) \<or> isl (validate_optional_email (isEmail ext) cc)
        \<or> isl (validate_optional_email (isEmail ext) bcc)"
  show "\<exists>e'. ?goal e'"
  proof (cases "validateEmail (isEmail ext) to")
    case (Inl e1)
    then have "?goal e1" by (simp add: validateEmail_error sendMail_rejected_to)
    then show ?thesis ..
  next
    case to_ok: (Inr a)
    show ?thesis
    proof (cases "validateMessageContent subj")
      case (Inl e2)
      with to_ok have "?goal e2"
        by (simp add: validateMessageContent_error sendMail_rejected_subject)
      then show ?thesis ..
    next
      case subj_ok: (Inr b)
      show ?thesis
      proof (cases "validateMessageContent body")
        case (Inl e3)
        with to_ok subj_ok have "?goal e3"
          by (simp add: validateMessageContent_error sendMail_rejected_body)
        then show ?thesis ..
      next
        case body_ok: (Inr c)
        show ?thesis
        proof (cases "validate_optional_email (isEmail ext) cc")
          case (Inl e4)
          with to_ok subj_ok body_ok have "?goal e4"
            by (simp add: validate_optional_email_error sendMail_rejected_cc)
          then show ?thesis ..
        next
          case cc_ok: (Inr d)
          with rejected to_ok subj_ok body_ok
          obtain e5 where bcc: "validate_optional_email (isEmail ext) bcc = Inl e5"
            by (cases "validate_optional_email (isEmail ext) bcc") auto
          with to_ok subj_ok body_ok cc_ok have "?goal e5"
            by (simp add: validate_optional_email_error sendMail_rejected_bcc)
          then show ?thesis ..
        qed
      qed
    qed
  qed
qed

theorem rejected_input_stops_operation_witness:
  "searchMails unreachable_world default_config (initial_system ()) ''eval'' None =
     (Inl (Error ''Error searching mail: Search query contains forbidden patterns''),
      initial_system ())
   \<and> (\<exists>e'. is_ValidationError e'
        \<and> sendMail unreachable_world default_config (initial_system ())
             ''bob@example.com'' ''exec this'' ''now'' None None =
            (Inl (Error (''Error sending mail: '' @ error_message e')), initial_system ()))"
proof -
  have h1: "validateSearchQuery ''eval'' =
      Inl (ValidationError ''Search query contains forbidden patterns'' (Some ''searchQuery''))"
    by code_simp
  have h2: "isl (validateMessageContent ''exec this'')"
    by code_simp
  note th = rejected_input_stops_operation [of "''eval''"
      "ValidationError ''Search query contains forbidden patterns'' (Some ''searchQuery'')"
      unreachable_world default_config "initial_system ()" None
      "''bob@example.com''" "''exec this''" "''now''" None None]
  from th h1 have a: "searchMails unreachable_world default_config (initial_system ()) ''eval'' None =
     (Inl (Error ''Error searching mail: Search query contains forbidden patterns''),
      initial_system ())"
    by simp
  from th h2 have b: "\<exists>e'. is_ValidationError e'
        \<and> sendMail unreachable_world default_config (initial_system ())
             ''bob@example.com'' ''exec this'' ''now'' None None =
            (Inl (Error (''Error sending mail: '' @ error_message e')), initial_system ())"
    by blast
  from a b show ?thesis ..
qed

text \<open>
  The claim as the specification words it, with the ValidationError surfaced verbatim, fails:
  the caller of \<open>searchMails\<close> gets a plain Error that carries the message behind a prefix,
  not the ValidationError with its field.
\<close>

theorem searchMails_validation_error_counterexample:
  "validateSearchQuery ''eval'' =
     Inl (ValidationError ''Search query contains forbidden patterns'' (Some ''searchQuery''))
   \<and> fst (searchMails unreachable_world default_config (initial_system ()) ''eval'' None) =
       Inl (Error ''Error searching mail: Search query contains forbidden patterns'')
   \<and> fst (searchMails unreachable_world default_config (initial_system ()) ''eval'' None) \<noteq>
       Inl (ValidationError ''Search query contains forbidden patterns'' (Some ''searchQuery''))"
proof -
  have h1: "validateSearchQuery ''eval'' =
      Inl (ValidationError ''Search query contains forbidden patterns'' (Some ''searchQuery''))"
    by code_simp
  then show ?thesis by (simp add: searchMails_def)
qed

section \<open>The audit log\<close>

text \<open>
  The path of \<open>sendMail\<close> that does write to the audit log: the script answers \<open>success\<close>.
  The entry names the operation and holds the first 50 characters of the subject.
\<close>

lemma sendMail_success_logged:
  assumes "validateEmail (isEmail ext) to = Inr vto"
    and "validateMessageContent subj = Inr vsubj"
    and "validateMessageContent body = Inr vbody"
    and "validate_optional_email (isEmail ext) cc = Inr vcc"
    and "validate_optional_email (isEmail ext) bcc = Inr vbcc"
    and "\<not> enableRateLimiting cfg" and "enableAuditLogging cfg"
    and "checkMailAccess ext s = (Inr True, s1)"
    and "call_script ext EnsureMailRunning s1 = (Inr out, s2)"
    and "call_script ext (ScriptText (send_script vto vsubj vbody vcc vbcc)) s2
           = (Inr ''success'', s3)"
  shows "sendMail ext cfg s to subj body cc bcc =
           (Inr (Some (''Email sent to '' @ vto @ '' with subject '' @ [dquote] @ vsubj
                   @ [dquote])),
            s3\<lparr>auditLog := auditLog s3 @
               [\<lparr>timestamp = Date_now ext (world s3),
                 operation = ''sendMail'',
                 user = None,
                 details = [(''to'', JStr vto), (''subject'', JStr (take 50 vsubj)),
                            (''cc'', undefined_or_string vcc),
                            (''bcc'', undefined_or_string vbcc)],
                 success = True,
                 error = None\<rparr>]\<rparr>)"
  using assms by (simp add: sendMail_def AuditLogger_log_def)

text \<open>
  Claim C8 says that every end of an operation leaves an entry in the audit log when audit
  logging is on, and that an entry with \<open>success = False\<close> and the error text is recorded when
  both the script and the object automation fail. \<open>sendMail\<close> writes an entry only when the
  script answers \<open>success\<close>. With audit logging on, a script that throws and an object
  automation that reports an error, the operation fails and the log stays empty.
\<close>

theorem sendMail_total_failure_not_logged:
  "enableAuditLogging default_config
   \<and> fst (sendMail failing_send_world default_config (initial_system ())
            ''bob@example.com'' ''Hello'' ''See you at noon'' None None) =
       Inl (Error ''Error sending mail: JXA error: Error: Mail got an error'')
   \<and> auditLog (snd (sendMail failing_send_world default_config (initial_system ())
            ''bob@example.com'' ''Hello'' ''See you at noon'' None None)) = []
   \<and> last (invocations (snd (sendMail failing_send_world default_config (initial_system ())
            ''bob@example.com'' ''Hello'' ''See you at noon'' None None))) =
       RunSend ''bob@example.com'' ''Hello'' ''See you at noon'' None None"
proof -
  have v1: "validateEmail (isEmail failing_send_world) ''bob@example.com'' = Inr ''bob@example.com''"
    by (simp add: validateEmail_def emailSchema_parse_def zod_issues_def failing_send_world_calls)
  have v2: "validateMessageContent ''Hello'' = Inr ''Hello''"
    by code_simp
  have v3: "validateMessageContent ''See you at noon'' = Inr ''See you at noon''"
    by code_simp
  have v4: "validate_optional_email f None = Inr None" for f
    by (simp add: validate_optional_email_def falsy_def)
  have c1: "check 1000 ''global'' (emails initial_rateLimiters) =
      (True, (emails initial_rateLimiters)
         \<lparr>limits := [''global'' \<mapsto> \<lparr>count = 1, resetAt = 61000\<rparr>]\<rparr>)"
    by (simp add: check_def initial_rateLimiters_def new_RateLimiter_def)
  have c2: "check 1000 ''global'' (global initial_rateLimiters) =
      (True, (global initial_rateLimiters)
         \<lparr>limits := [''global'' \<mapsto> \<lparr>count = 1, resetAt = 61000\<rparr>]\<rparr>)"
    by (simp add: check_def initial_rateLimiters_def new_RateLimiter_def)
  have r: "sendMail failing_send_world default_config (initial_system ())
            ''bob@example.com'' ''Hello'' ''See you at noon'' None None =
      (Inl (Error ''Error sending mail: JXA error: Error: Mail got an error''),
       \<lparr>world = (),
        invocations = [RunAppleScript MailProcessExists, RunAppleScript CountMailboxes,
          RunAppleScript EnsureMailRunning,
          RunAppleScript (ScriptText (send_script ''bob@example.com'' ''Hello''
            ''See you at noon'' None None)),
          RunSend ''bob@example.com'' ''Hello'' ''See you at noon'' None None],
        limiters = initial_rateLimiters
          \<lparr>emails := (emails initial_rateLimiters)
             \<lparr>limits := [''global'' \<mapsto> \<lparr>count = 1, resetAt = 61000\<rparr>]\<rparr>,
           global := (global initial_rateLimiters)
             \<lparr>limits := [''global'' \<mapsto> \<lparr>count = 1, resetAt = 61000\<rparr>]\<rparr>\<rparr>,
        auditLog = []\<rparr>)"
    unfolding sendMail_def
    by (simp add: v1 v2 v3 v4 c1 c2 default_config_flags checkMailAccess_failing_send_world_any
        failing_send_world_calls initial_system_def startsWith_def)
  show ?thesis unfolding r by (simp add: default_config_flags)
qed

end
